theory Spec2Isabelle
  imports Main "HOL-Library.Word"
begin

section \<open>Wake-on-LAN command line tool (main.go)\<close>

text \<open>
  The program is a one-shot command: every function either returns a value, ends the
  process through \<^verbatim>\<open>os.Exit\<close> with an exit code, or panics (an index out
  of range). On its way it calls the outside world (\<^verbatim>\<open>fmt\<close>,
  \<^verbatim>\<open>net\<close>); the calls that leave the process are recorded, in order, as a
  list of events. The operating system's answers are read from an environment record.
\<close>

subsection \<open>Data\<close>

type_synonym byte = "8 word"

text \<open>\<^verbatim>\<open>net.IP\<close> and \<^verbatim>\<open>net.HardwareAddr\<close> are byte slices.\<close>

type_synonym ip = "byte list"

text \<open>A Go \<^verbatim>\<open>error\<close> value, kept as its message (\<^verbatim>\<open>err.Error()\<close>).\<close>

type_synonym os_error = string

text \<open>\<^verbatim>\<open>net.UDPAddr{IP: ..., Port: ...}\<close> (the zone is left empty by the program).\<close>

record udp_addr =
  IP :: ip
  Port :: int

text \<open>
  The dynamic types behind the interface \<^verbatim>\<open>net.Addr\<close>: an
  \<^verbatim>\<open>*net.IPNet\<close> (address and mask) or another implementation, which the
  type switch of \<^verbatim>\<open>addressFromNetworkAdapter\<close> does not match.
\<close>

datatype net_addr = IPNet ip "byte list" | OtherAddr ip

text \<open>
  \<^verbatim>\<open>net.Interface\<close>, with the answer of its method \<^verbatim>\<open>Addrs()\<close>
  as a field: the list of bound addresses, or the error of the query.
\<close>

record net_interface =
  Index :: int
  Name :: string
  Addrs :: "os_error + net_addr list"

text \<open>An open \<^verbatim>\<open>*net.UDPConn\<close>: the two endpoints it reports.\<close>

record udp_conn =
  LocalAddr :: udp_addr
  RemoteAddr :: udp_addr

text \<open>The global \<^verbatim>\<open>programFlags\<close>; a nil slice is \<open>None\<close>.\<close>

record program_flags =
  listNetworkAdapters :: bool
  macAddress :: "byte list option"
  networkAdapterName :: string

text \<open>
  What the operating system and the \<^verbatim>\<open>net\<close> package answer during one run:
  the interface table, \<^verbatim>\<open>net.ParseMAC\<close>, \<^verbatim>\<open>net.DialUDP\<close> (for
  the network \<^verbatim>\<open>udp4\<close>) and \<^verbatim>\<open>(*net.UDPConn).Write\<close>, which
  returns a byte count and possibly an error.
\<close>

record os_env =
  interfaceTable :: "os_error + net_interface list"
  ParseMAC :: "string \<Rightarrow> os_error + byte list"
  DialUDP :: "udp_addr option \<Rightarrow> udp_addr \<Rightarrow> os_error + udp_conn"
  Write :: "udp_conn \<Rightarrow> byte list \<Rightarrow> int \<times> os_error option"

subsection \<open>Effects\<close>

text \<open>
  An argument of a \<^verbatim>\<open>fmt\<close> call: a string, an integer, or the
  \<^verbatim>\<open>String()\<close> of an IP or of a (possibly nil) UDP address, kept symbolic.
\<close>

datatype fmt_arg =
  ArgStr string
  | ArgInt int
  | ArgIP ip
  | ArgUDPAddr "udp_addr option"

datatype event =
  Printf string "fmt_arg list"
  | Fprintf_Stderr string "fmt_arg list"
  | Fprintln_Stderr string
  | FlagUsage
  | NetDialUDP string "udp_addr option" udp_addr
  | ConnWrite udp_conn "byte list"
  | ConnClose udp_conn

datatype 'a result = Return 'a | Exit int | Panic

type_synonym 'a io = "event list \<times> 'a result"

definition io_bind :: "'a io \<Rightarrow> ('a \<Rightarrow> 'b io) \<Rightarrow> 'b io" where
  "io_bind m f =
     (case m of
        (es, Return a) \<Rightarrow> (case f a of (es', r) \<Rightarrow> (es @ es', r))
      | (es, Exit c) \<Rightarrow> (es, Exit c)
      | (es, Panic) \<Rightarrow> (es, Panic))"

text \<open>
  The exit status of the process: 0 when \<^verbatim>\<open>main\<close> returns, the argument of
  \<^verbatim>\<open>os.Exit\<close>, and 2 for a panic of the Go runtime.
\<close>

fun exit_status :: "unit result \<Rightarrow> int" where
  "exit_status (Return _) = 0"
| "exit_status (Exit c) = c"
| "exit_status Panic = 2"

subsection \<open>Constants\<close>

text \<open>The exit codes are \<^verbatim>\<open>iota + 2\<close>; the first one, 2, is left blank.\<close>

definition macAddressNotEUI48Error :: int where
  "macAddressNotEUI48Error = 1 + 2"

definition macAddressNotInformedError :: int where
  "macAddressNotInformedError = 2 + 2"

definition networkAdapterAddressesFetchingError :: int where
  "networkAdapterAddressesFetchingError = 3 + 2"

definition networkAdapterFetchingError :: int where
  "networkAdapterFetchingError = 4 + 2"

definition networkAdaptersFetchingError :: int where
  "networkAdaptersFetchingError = 5 + 2"

definition notAllWOLPayloadBytesSentError :: int where
  "notAllWOLPayloadBytesSentError = 6 + 2"

definition udpConnectionError :: int where
  "udpConnectionError = 7 + 2"

definition wolPayloadSendingError :: int where
  "wolPayloadSendingError = 8 + 2"

definition eui48Length :: nat where
  "eui48Length = 6"

definition wakeOnLanUDPPort :: int where
  "wakeOnLanUDPPort = 7"

definition payloadLength :: nat where
  "payloadLength = eui48Length + (16 * eui48Length)"

subsection \<open>createWOLPayload\<close>

text \<open>
  The array literal: six bytes 0xff, the rest of the \<open>payloadLength\<close> bytes zero.
\<close>

definition initialPayload :: "byte list" where
  "initialPayload = replicate 6 0xff @ replicate (payloadLength - 6) 0"

text \<open>
  The inner loop \<^verbatim>\<open>for j := 0; j < eui48Length; j++\<close>. Both index expressions
  are checked by the Go runtime: out of range is a panic.
\<close>

function createWOLPayload_inner ::
  "byte list option \<Rightarrow> nat \<Rightarrow> byte list \<times> nat \<Rightarrow> (byte list \<times> nat) result" where
  "createWOLPayload_inner mac j (payload, payloadIndex) =
     (if j < eui48Length then
        (case mac of
           None \<Rightarrow> Panic
         | Some m \<Rightarrow>
             if j < length m \<and> payloadIndex < length payload then
               createWOLPayload_inner mac (j + 1)
                 (payload[payloadIndex := m ! j], payloadIndex + 1)
             else Panic)
      else Return (payload, payloadIndex))"
  by pat_completeness auto
termination
  by (relation "measure (\<lambda>(mac, j, st). eui48Length - j)") auto

text \<open>The outer loop \<^verbatim>\<open>for i := 0; i < 16; i++\<close>.\<close>

function createWOLPayload_outer ::
  "byte list option \<Rightarrow> nat \<Rightarrow> byte list \<times> nat \<Rightarrow> (byte list \<times> nat) result" where
  "createWOLPayload_outer mac i st =
     (if i < 16 then
        (case createWOLPayload_inner mac 0 st of
           Return st' \<Rightarrow> createWOLPayload_outer mac (i + 1) st'
         | Exit c \<Rightarrow> Exit c
         | Panic \<Rightarrow> Panic)
      else Return st)"
  by pat_completeness auto
termination
  by (relation "measure (\<lambda>(mac, i, st). 16 - i)") auto

definition createWOLPayload :: "program_flags \<Rightarrow> byte list result" where
  "createWOLPayload flags =
     (case createWOLPayload_outer (macAddress flags) 0 (initialPayload, 6) of
        Return (payload, payloadIndex) \<Rightarrow> Return payload
      | Exit c \<Rightarrow> Exit c
      | Panic \<Rightarrow> Panic)"

subsection \<open>The parts of Go's standard library the program calls\<close>

text \<open>
  \<^verbatim>\<open>net.IP.To4\<close>: a 4-byte slice is returned as it is, a 16-byte slice with the
  prefix of an IPv4-mapped address gives its last four bytes, anything else nil.
\<close>

fun isZeros :: "ip \<Rightarrow> bool" where
  "isZeros [] = True"
| "isZeros (b # bs) = (if b \<noteq> 0 then False else isZeros bs)"

definition To4 :: "ip \<Rightarrow> ip option" where
  "To4 a =
     (if length a = 4 then Some a
      else if length a = 16 \<and> isZeros (take 10 a) \<and> a ! 10 = 0xff \<and> a ! 11 = 0xff
        then Some (take 4 (drop 12 a))
      else None)"

definition IPv6loopback :: ip where
  "IPv6loopback = [0, 0, 0, 0, 0, 0, 0, 0, 0, 0, 0, 0, 0, 0, 0, 1]"

text \<open>
  \<^verbatim>\<open>net.IP.IsLoopback\<close>: an IPv4 address is a loopback address when its first
  byte is 127 (the network 127.0.0.0/8), any other one when it equals \<open>::1\<close>.
\<close>

definition IsLoopback :: "ip \<Rightarrow> bool" where
  "IsLoopback a =
     (case To4 a of
        Some ip4 \<Rightarrow> ip4 ! 0 = 127
      | None \<Rightarrow> a = IPv6loopback)"

text \<open>
  The \<^verbatim>\<open>net.OpError\<close> that wraps every error of the interface functions.
\<close>

definition opError :: "os_error \<Rightarrow> os_error" where
  "opError e = ''route ip+net: '' @ e"

text \<open>\<^verbatim>\<open>net.Interfaces\<close> reads the interface table.\<close>

definition Interfaces :: "os_env \<Rightarrow> os_error + net_interface list" where
  "Interfaces env =
     (case interfaceTable env of
        Inl e \<Rightarrow> Inl (opError e)
      | Inr ift \<Rightarrow> Inr ift)"

text \<open>
  \<^verbatim>\<open>net.InterfaceByName\<close>: the empty name is refused before the table is read;
  otherwise the first interface of that name is returned.
\<close>

definition InterfaceByName :: "os_env \<Rightarrow> string \<Rightarrow> os_error + net_interface" where
  "InterfaceByName env name =
     (if name = [] then Inl (opError ''invalid network interface name'')
      else
        (case interfaceTable env of
           Inl e \<Rightarrow> Inl (opError e)
         | Inr ift \<Rightarrow>
             (case find (\<lambda>ifi. name = Name ifi) ift of
                Some ifi \<Rightarrow> Inr ifi
              | None \<Rightarrow> Inl (opError ''no such network interface''))))"

subsection \<open>Source address resolver\<close>

text \<open>The loop over the addresses of \<^verbatim>\<open>addressFromNetworkAdapter\<close>.\<close>

fun addressFromNetworkAdapter_loop :: "net_addr list \<Rightarrow> udp_addr option" where
  "addressFromNetworkAdapter_loop [] = None"
| "addressFromNetworkAdapter_loop (networkAdapterAddress # rest) =
     (case networkAdapterAddress of
        IPNet a m \<Rightarrow>
          (case To4 a of
             None \<Rightarrow> addressFromNetworkAdapter_loop rest
           | Some ipv4 \<Rightarrow>
               if IsLoopback ipv4 then addressFromNetworkAdapter_loop rest
               else Some \<lparr>IP = ipv4, Port = wakeOnLanUDPPort\<rparr>)
      | OtherAddr a \<Rightarrow> addressFromNetworkAdapter_loop rest)"

definition addressFromNetworkAdapter :: "net_interface \<Rightarrow> udp_addr option io" where
  "addressFromNetworkAdapter networkAdapter =
     (case Addrs networkAdapter of
        Inl err \<Rightarrow>
          ([Fprintf_Stderr
              ''The following error occurred when fetching the addresses of the network adapter of index %d: %s\<newline>''
              [ArgInt (Index networkAdapter), ArgStr err]],
           Exit networkAdapterAddressesFetchingError)
      | Inr networkAdapterAddresses \<Rightarrow>
          ([], Return (addressFromNetworkAdapter_loop networkAdapterAddresses)))"

definition addressFromNetworkAdapterName :: "os_env \<Rightarrow> string \<Rightarrow> udp_addr option io" where
  "addressFromNetworkAdapterName env name =
     (case InterfaceByName env name of
        Inl err \<Rightarrow>
          ([Fprintf_Stderr
              ''The following error occurred when fetching the network adapter named %s: %s\<newline>''
              [ArgStr name, ArgStr err]],
           Exit networkAdapterFetchingError)
      | Inr networkAdapter \<Rightarrow> addressFromNetworkAdapter networkAdapter)"

subsection \<open>Flags\<close>

definition checkParsedMACAddress :: "program_flags \<Rightarrow> unit io" where
  "checkParsedMACAddress flags =
     (if listNetworkAdapters flags then ([], Return ())
      else
        (case macAddress flags of
           None \<Rightarrow>
             ([Fprintln_Stderr ''No MAC address informed. See program usage (-h flag).''],
              Exit macAddressNotInformedError)
         | Some m \<Rightarrow>
             if length m \<noteq> eui48Length then
               ([Fprintln_Stderr ''MAC address must be an EUI-48 identifier.''],
                Exit macAddressNotEUI48Error)
             else ([], Return ())))"

text \<open>
  \<^verbatim>\<open>parseMACAddressFlag\<close> assigns the result of \<^verbatim>\<open>net.ParseMAC\<close> (nil
  when it fails) and returns its own error.
\<close>

definition parseMACAddressFlag ::
  "os_env \<Rightarrow> string \<Rightarrow> program_flags \<Rightarrow> program_flags \<times> os_error option" where
  "parseMACAddressFlag env s flags =
     (case ParseMAC env s of
        Inl err \<Rightarrow> (flags\<lparr>macAddress := None\<rparr>, Some ''could not parse MAC address'')
      | Inr m \<Rightarrow> (flags\<lparr>macAddress := Some m\<rparr>, None))"

text \<open>
  The command line, as the occurrences of the three flags registered in
  \<^verbatim>\<open>init\<close>, in their order. \<^verbatim>\<open>flag.Parse\<close> sets each flag in turn; when
  the function of a \<^verbatim>\<open>flag.Func\<close> returns an error, the package reports it,
  prints the usage and calls \<^verbatim>\<open>os.Exit(2)\<close>.
\<close>

datatype cli_flag =
  ListNetworkAdaptersArg bool
  | NetworkAdapterNameArg string
  | MacAddressArg string

definition initialFlags :: program_flags where
  "initialFlags = \<lparr>listNetworkAdapters = False, macAddress = None, networkAdapterName = []\<rparr>"

fun flag_Parse :: "os_env \<Rightarrow> cli_flag list \<Rightarrow> program_flags \<Rightarrow> program_flags io" where
  "flag_Parse env [] flags = ([], Return flags)"
| "flag_Parse env (ListNetworkAdaptersArg b # rest) flags =
     flag_Parse env rest (flags\<lparr>listNetworkAdapters := b\<rparr>)"
| "flag_Parse env (NetworkAdapterNameArg name # rest) flags =
     flag_Parse env rest (flags\<lparr>networkAdapterName := name\<rparr>)"
| "flag_Parse env (MacAddressArg s # rest) flags =
     (case parseMACAddressFlag env s flags of
        (flags', Some err) \<Rightarrow>
          ([Fprintf_Stderr ''invalid value %q for flag -%s: %v\<newline>''
              [ArgStr s, ArgStr ''mac-address'', ArgStr err],
            FlagUsage],
           Exit 2)
      | (flags', None) \<Rightarrow> flag_Parse env rest flags')"

definition parseProgramFlags :: "os_env \<Rightarrow> cli_flag list \<Rightarrow> program_flags io" where
  "parseProgramFlags env args =
     io_bind (flag_Parse env args initialFlags) (\<lambda>flags.
     io_bind (checkParsedMACAddress flags) (\<lambda>_.
     ([], Return flags)))"

subsection \<open>Listing the adapters\<close>

fun listNetworkAdapters_loop :: "net_interface list \<Rightarrow> unit io" where
  "listNetworkAdapters_loop [] = ([], Return ())"
| "listNetworkAdapters_loop (networkAdapter # rest) =
     io_bind (addressFromNetworkAdapter networkAdapter) (\<lambda>networkAdapterAddress.
     io_bind
       (case networkAdapterAddress of
          Some a \<Rightarrow>
            ([Printf ''Local Address: %-15s | Name: %s\<newline>''
                [ArgIP (IP a), ArgStr (Name networkAdapter)]],
             Return ())
        | None \<Rightarrow> ([], Return ()))
       (\<lambda>_. listNetworkAdapters_loop rest))"

definition listNetworkAdapters_run :: "os_env \<Rightarrow> unit io" where
  "listNetworkAdapters_run env =
     (case Interfaces env of
        Inl err \<Rightarrow>
          ([Fprintln_Stderr
              (''The following error occurred when fetching the network adapters of the system: '' @ err)],
           Exit networkAdaptersFetchingError)
      | Inr networkAdapters \<Rightarrow> listNetworkAdapters_loop networkAdapters)"

subsection \<open>Sending the payload\<close>

definition remoteAddress :: udp_addr where
  "remoteAddress = \<lparr>IP = [255, 255, 255, 255], Port = wakeOnLanUDPPort\<rparr>"

definition openUDPConnection :: "os_env \<Rightarrow> program_flags \<Rightarrow> udp_conn io" where
  "openUDPConnection env flags =
     io_bind (addressFromNetworkAdapterName env (networkAdapterName flags)) (\<lambda>localAddress.
       (case DialUDP env localAddress remoteAddress of
          Inl err \<Rightarrow>
            ([NetDialUDP ''udp4'' localAddress remoteAddress,
              Fprintf_Stderr
                ''The following error occurred when trying to connect to the remote address %s from the local address %s: %s\<newline>''
                [ArgUDPAddr (Some remoteAddress), ArgUDPAddr localAddress, ArgStr err]],
             Exit udpConnectionError)
        | Inr udpConnection \<Rightarrow>
            ([NetDialUDP ''udp4'' localAddress remoteAddress], Return udpConnection)))"

definition sendWOLPayload :: "os_env \<Rightarrow> udp_conn \<Rightarrow> byte list \<Rightarrow> unit io" where
  "sendWOLPayload env udpConnection payload =
     io_bind
       ([Printf
           ''Sending Wake-on-LAN payload to the remote address %s from the local address %s.\<newline>''
           [ArgUDPAddr (Some (RemoteAddr udpConnection)),
            ArgUDPAddr (Some (LocalAddr udpConnection))],
         ConnWrite udpConnection payload],
        Return (Write env udpConnection payload))
       (\<lambda>(bytesWritten, err).
          (case err of
             Some e \<Rightarrow>
               ([Fprintln_Stderr
                   (''The following error occurred when sending the Wake-on-LAN payload: '' @ e)],
                Exit wolPayloadSendingError)
           | None \<Rightarrow>
               if bytesWritten = int payloadLength then
                 ([Printf ''Wake-on-LAN payload sent.'' []], Return ())
               else
                 ([Fprintf_Stderr
                     ''Not all %d bytes of the payload were sent to the remote address.\<newline>''
                     [ArgInt (int payloadLength)]],
                  Exit notAllWOLPayloadBytesSentError)))"

definition closeUDPConnection :: "udp_conn \<Rightarrow> unit io" where
  "closeUDPConnection udpConnection = ([ConnClose udpConnection], Return ())"

text \<open>
  The connection is opened first, then the argument \<^verbatim>\<open>createWOLPayload()\<close> is
  evaluated, then the payload is sent; the deferred close is registered after the send
  has returned and runs when the function returns.
\<close>

definition wakeRemoteComputer :: "os_env \<Rightarrow> program_flags \<Rightarrow> unit io" where
  "wakeRemoteComputer env flags =
     io_bind (openUDPConnection env flags) (\<lambda>udpConnection.
     io_bind ([], createWOLPayload flags) (\<lambda>payload.
     io_bind (sendWOLPayload env udpConnection payload) (\<lambda>_.
     closeUDPConnection udpConnection)))"

definition main :: "os_env \<Rightarrow> cli_flag list \<Rightarrow> unit io" where
  "main env args =
     io_bind (parseProgramFlags env args) (\<lambda>flags.
       if listNetworkAdapters flags then listNetworkAdapters_run env
       else wakeRemoteComputer env flags)"

subsection \<open>Vocabulary of the properties\<close>

text \<open>
  The IPv4 form of a bound address, when it is an IP network address holding an IPv4
  address (four bytes, or sixteen bytes in the IPv4-mapped form).
\<close>

definition ipv4_of :: "net_addr \<Rightarrow> ip option" where
  "ipv4_of addr = (case addr of IPNet a m \<Rightarrow> To4 a | OtherAddr a \<Rightarrow> None)"

text \<open>
  A qualifying address: an IPv4 address outside the loopback network 127.0.0.0/8, that is,
  whose first byte is not 127.
\<close>

definition qualifying :: "net_addr \<Rightarrow> bool" where
  "qualifying addr = (case ipv4_of addr of Some v4 \<Rightarrow> hd v4 \<noteq> 127 | None \<Rightarrow> False)"

text \<open>The magic packet of a hardware address: six bytes 0xff, then the address 16 times.\<close>

definition magic_packet :: "byte list \<Rightarrow> byte list" where
  "magic_packet A = replicate 6 0xff @ concat (replicate 16 A)"

fun is_write :: "event \<Rightarrow> bool" where
  "is_write (ConnWrite conn p) = True"
| "is_write e = False"

text \<open>Events that do not touch the network.\<close>

fun net_free :: "event \<Rightarrow> bool" where
  "net_free (NetDialUDP network laddr raddr) = False"
| "net_free (ConnWrite conn p) = False"
| "net_free (ConnClose conn) = False"
| "net_free e = True"

text \<open>The address the resolver finds on an adapter whose addresses can be fetched.\<close>

definition resolved :: "net_interface \<Rightarrow> udp_addr option" where
  "resolved networkAdapter =
     (case Addrs networkAdapter of
        Inl err \<Rightarrow> None
      | Inr addrs \<Rightarrow> addressFromNetworkAdapter_loop addrs)"

text \<open>The line of the listing for an adapter and its address.\<close>

definition adapter_line :: "net_interface \<Rightarrow> udp_addr \<Rightarrow> event" where
  "adapter_line networkAdapter a =
     Printf ''Local Address: %-15s | Name: %s\<newline>''
       [ArgIP (IP a), ArgStr (Name networkAdapter)]"

text \<open>The listing of adapters, in their order: one line for each that has an address.\<close>

definition listing_of :: "net_interface list \<Rightarrow> event list" where
  "listing_of networkAdapters =
     List.map_filter (\<lambda>a. map_option (adapter_line a) (resolved a)) networkAdapters"

text \<open>The exit status of the whole program on a command line.\<close>

definition exit_code :: "os_env \<Rightarrow> cli_flag list \<Rightarrow> int" where
  "exit_code env args = exit_status (snd (main env args))"

subsection \<open>Example inputs\<close>

definition mac_example :: "byte list" where
  "mac_example = [0xAA, 0xBB, 0xCC, 0xDD, 0xEE, 0xFF]"

definition flags_example :: program_flags where
  "flags_example =
     \<lparr>listNetworkAdapters = False,
      macAddress = Some [0xAA, 0xBB, 0xCC, 0xDD, 0xEE, 0xFF],
      networkAdapterName = ''eth0''\<rparr>"

text \<open>127.0.0.1/8, 192.168.1.10/24 in the 16-byte form, and fe80::1/64.\<close>

definition loopback_v4 :: net_addr where
  "loopback_v4 = IPNet [127, 0, 0, 1] [255, 0, 0, 0]"

definition real_v4 :: net_addr where
  "real_v4 =
     IPNet [0, 0, 0, 0, 0, 0, 0, 0, 0, 0, 0xff, 0xff, 192, 168, 1, 10] [255, 255, 255, 0]"

definition link_local_v6 :: net_addr where
  "link_local_v6 =
     IPNet [0xfe, 0x80, 0, 0, 0, 0, 0, 0, 0, 0, 0, 0, 0, 0, 0, 1]
       [255, 255, 255, 255, 255, 255, 255, 255, 0, 0, 0, 0, 0, 0, 0, 0]"

definition adapter_lo :: net_interface where
  "adapter_lo = \<lparr>Index = 1, Name = ''lo'', Addrs = Inr [loopback_v4]\<rparr>"

definition adapter_eth0 :: net_interface where
  "adapter_eth0 =
     \<lparr>Index = 2, Name = ''eth0'', Addrs = Inr [loopback_v4, real_v4, link_local_v6]\<rparr>"

definition adapter_broken :: net_interface where
  "adapter_broken = \<lparr>Index = 3, Name = ''tun0'', Addrs = Inl ''permission denied''\<rparr>"

text \<open>
  A system with the adapters \<open>lo\<close> and \<open>eth0\<close>, where every socket opens and every
  write takes the whole buffer. Its \<open>ParseMAC\<close> knows one 6-byte and one 8-byte
  address.
\<close>

definition env_example :: os_env where
  "env_example =
     \<lparr>interfaceTable = Inr [adapter_lo, adapter_eth0],
      ParseMAC = (\<lambda>s.
        if s = ''aa:bb:cc:dd:ee:ff'' then Inr [0xAA, 0xBB, 0xCC, 0xDD, 0xEE, 0xFF]
        else if s = ''01:23:45:67:89:ab:cd:ef'' then Inr [0x01, 0x23, 0x45, 0x67, 0x89, 0xab, 0xcd, 0xef]
        else Inl (''address '' @ s @ '': invalid MAC address'')),
      DialUDP = (\<lambda>laddr raddr.
        Inr \<lparr>LocalAddr = (case laddr of
                            Some a \<Rightarrow> a
                          | None \<Rightarrow> \<lparr>IP = [192, 168, 1, 10], Port = 40000\<rparr>),
             RemoteAddr = raddr\<rparr>),
      Write = (\<lambda>conn p. (int (length p), None))\<rparr>"

text \<open>The same system with a transport that takes 60 bytes only, or fails.\<close>

definition env_partial :: os_env where
  "env_partial = env_example\<lparr>Write := (\<lambda>conn p. (60, None))\<rparr>"

definition env_write_error :: os_env where
  "env_write_error = env_example\<lparr>Write := (\<lambda>conn p. (0, Some ''network is unreachable''))\<rparr>"

definition env_dial_error :: os_env where
  "env_dial_error = env_example\<lparr>DialUDP := (\<lambda>laddr raddr. Inl ''permission denied'')\<rparr>"

text \<open>A system where the addresses of the second of three adapters cannot be fetched.\<close>

definition env_broken :: os_env where
  "env_broken = env_example\<lparr>interfaceTable := Inr [adapter_eth0, adapter_broken, adapter_lo]\<rparr>"

definition conn_example :: udp_conn where
  "conn_example =
     \<lparr>LocalAddr = \<lparr>IP = [192, 168, 1, 10], Port = 7\<rparr>,
      RemoteAddr = \<lparr>IP = [255, 255, 255, 255], Port = 7\<rparr>\<rparr>"

definition args_example :: "cli_flag list" where
  "args_example = [MacAddressArg ''aa:bb:cc:dd:ee:ff'', NetworkAdapterNameArg ''eth0'']"

definition args_lo :: "cli_flag list" where
  "args_lo = [MacAddressArg ''aa:bb:cc:dd:ee:ff'', NetworkAdapterNameArg ''lo'']"

definition args_no_adapter :: "cli_flag list" where
  "args_no_adapter = [MacAddressArg ''aa:bb:cc:dd:ee:ff'']"

definition args_list :: "cli_flag list" where
  "args_list = [ListNetworkAdaptersArg True]"

definition args_unparseable :: "cli_flag list" where
  "args_unparseable = [ListNetworkAdaptersArg True, MacAddressArg ''zz'']"

definition args_eui64 :: "cli_flag list" where
  "args_eui64 = [MacAddressArg ''01:23:45:67:89:ab:cd:ef'', NetworkAdapterNameArg ''eth0'']"

definition args_tun0 :: "cli_flag list" where
  "args_tun0 = [MacAddressArg ''aa:bb:cc:dd:ee:ff'', NetworkAdapterNameArg ''tun0'']"

text \<open>The connection the example system opens when no local address is given.\<close>

definition conn_default :: udp_conn where
  "conn_default =
     \<lparr>LocalAddr = \<lparr>IP = [192, 168, 1, 10], Port = 40000\<rparr>,
      RemoteAddr = \<lparr>IP = [255, 255, 255, 255], Port = 7\<rparr>\<rparr>"

definition flags_lo :: program_flags where
  "flags_lo =
     \<lparr>listNetworkAdapters = False,
      macAddress = Some [0xAA, 0xBB, 0xCC, 0xDD, 0xEE, 0xFF],
      networkAdapterName = ''lo''\<rparr>"

definition flags_no_adapter :: program_flags where
  "flags_no_adapter =
     \<lparr>listNetworkAdapters = False,
      macAddress = Some [0xAA, 0xBB, 0xCC, 0xDD, 0xEE, 0xFF],
      networkAdapterName = []\<rparr>"

section \<open>Properties\<close>

subsection \<open>The payload builder\<close>

lemma inner_fills:
  "length m = 6 \<Longrightarrow> j \<le> 6 \<Longrightarrow> idx + (6 - j) \<le> length p \<Longrightarrow>
   createWOLPayload_inner (Some m) j (p, idx) =
     Return (take idx p @ drop j m @ drop (idx + (6 - j)) p, idx + (6 - j))"
proof (induction "6 - j" arbitrary: j idx p)
  case 0
  then show ?case by (simp add: eui48Length_def)
next
  case (Suc n)
  then have j: "j < 6" by arith
  have idx: "idx < length p" using Suc.prems j by arith
  have step: "createWOLPayload_inner (Some m) j (p, idx) =
     createWOLPayload_inner (Some m) (j + 1) (p[idx := m ! j], idx + 1)"
    using j idx Suc.prems(1) by (simp add: eui48Length_def)
  have n: "n = 6 - (j + 1)" using Suc.hyps by arith
  have ih: "createWOLPayload_inner (Some m) (j + 1) (p[idx := m ! j], idx + 1) =
     Return (take (idx + 1) (p[idx := m ! j]) @ drop (j + 1) m @ drop (idx + 1 + (6 - (j + 1))) (p[idx := m ! j]),
             idx + 1 + (6 - (j + 1)))"
    using Suc.prems j by (intro Suc.hyps(1) [OF n]) auto
  have a: "take (idx + 1) (p[idx := m ! j]) = take idx p @ [m ! j]"
    using idx by (simp add: take_Suc_conv_app_nth)
  have b: "drop j m = m ! j # drop (j + 1) m"
    using j Suc.prems by (simp add: Cons_nth_drop_Suc)
  have d: "idx + 1 + (6 - (j + 1)) = idx + (6 - j)" using j by arith
  have "idx < idx + (6 - j)" using j by arith
  then have c0: "drop (idx + (6 - j)) (p[idx := m ! j]) = drop (idx + (6 - j)) p"
    by (rule drop_update_cancel)
  show ?case unfolding step ih a b d c0 by simp
qed

lemma drop_splice:
  assumes "length m = n" "idx + n \<le> length p" "idx + n \<le> q"
  shows "drop q (take idx p @ m @ drop (idx + n) p) = drop q p"
proof -
  obtain k where q: "q = idx + n + k"
    using assms(3) by (auto simp: le_iff_add)
  have l: "length (take idx p @ m) = idx + n"
    using assms(1,2) by simp
  have "drop (length (take idx p @ m) + k) ((take idx p @ m) @ drop (idx + n) p)
        = drop k (drop (idx + n) p)"
    by (rule drop_append [where xs = "take idx p @ m", THEN trans]) simp
  also have "\<dots> = drop q p"
    by (simp add: q add.commute)
  finally show ?thesis unfolding l q by simp
qed

lemma outer_fills:
  "length m = 6 \<Longrightarrow> i \<le> 16 \<Longrightarrow> idx + 6 * (16 - i) \<le> length p \<Longrightarrow>
   createWOLPayload_outer (Some m) i (p, idx) =
     Return (take idx p @ concat (replicate (16 - i) m) @ drop (idx + 6 * (16 - i)) p,
             idx + 6 * (16 - i))"
proof (induction "16 - i" arbitrary: i idx p)
  case 0
  then show ?case by simp
next
  case (Suc n)
  then have i: "i < 16" by arith
  have n: "n = 16 - (i + 1)" using Suc.hyps by arith
  have r: "16 - i = Suc (16 - (i + 1))" using i by arith
  let ?p = "take idx p @ m @ drop (idx + 6) p"
  have inner: "createWOLPayload_inner (Some m) 0 (p, idx) = Return (?p, idx + 6)"
    using inner_fills [of m 0 idx p] Suc.prems i by simp
  have step: "createWOLPayload_outer (Some m) i (p, idx) =
     createWOLPayload_outer (Some m) (i + 1) (?p, idx + 6)"
    using i inner by simp
  have len: "length ?p = length p" using Suc.prems i by simp
  have ih: "createWOLPayload_outer (Some m) (i + 1) (?p, idx + 6) =
     Return (take (idx + 6) ?p @ concat (replicate (16 - (i + 1)) m) @
               drop (idx + 6 + 6 * (16 - (i + 1))) ?p,
             idx + 6 + 6 * (16 - (i + 1)))"
    using Suc.prems i len by (intro Suc.hyps(1) [OF n]) auto
  have a: "take (idx + 6) ?p = take idx p @ m"
    using Suc.prems i by simp
  have d: "idx + 6 + 6 * (16 - (i + 1)) = idx + 6 * (16 - i)" using i by arith
  have c0: "drop (idx + 6 * (16 - i)) ?p = drop (idx + 6 * (16 - i)) p"
    using Suc.prems(1,3) i by (intro drop_splice) auto
  show ?case unfolding step ih a d c0 by (simp add: r)
qed

lemma createWOLPayload_eq:
  "length m = 6 \<Longrightarrow> macAddress flags = Some m \<Longrightarrow>
   createWOLPayload flags = Return (replicate 6 0xff @ concat (replicate 16 m))"
  using outer_fills [of m 0 6 initialPayload]
  by (simp add: createWOLPayload_def initialPayload_def payloadLength_def eui48Length_def)

lemma concat_replicate_nth:
  "k < n \<Longrightarrow> j < length xs \<Longrightarrow> concat (replicate n xs) ! (length xs * k + j) = xs ! j"
proof (induction n arbitrary: k)
  case 0
  then show ?case by simp
next
  case (Suc n)
  show ?case
  proof (cases k)
    case 0
    then show ?thesis using Suc.prems by (simp add: nth_append)
  next
    case (Suc k')
    then show ?thesis using Suc.prems Suc.IH [of k'] by (simp add: nth_append)
  qed
qed


lemma length_concat_replicate: "length (concat (replicate n xs)) = n * length xs"
  by (induction n) simp_all

text \<open>
  C1. For every 6-byte hardware address A, the payload builder returns a buffer of
  exactly 102 bytes whose first 6 bytes are all 0xFF and whose bytes at the positions
  6+6k .. 6+6k+5 equal A, for every k in [0,16).
\<close>

theorem createWOLPayload_magic_packet:
  assumes "macAddress flags = Some A" and "length A = 6"
  shows "\<exists>payload. createWOLPayload flags = Return payload \<and> length payload = 102 \<and>
           (\<forall>i<6. payload ! i = 0xff) \<and>
           (\<forall>k<16. \<forall>j<6. payload ! (6 + 6 * k + j) = A ! j)"
proof -
  let ?payload = "replicate 6 (0xff :: byte) @ concat (replicate 16 A)"
  have run: "createWOLPayload flags = Return ?payload"
    using assms by (simp add: createWOLPayload_eq)
  have len: "length ?payload = 102"
    using assms(2) by (simp add: length_concat_replicate)
  have sync: "?payload ! i = 0xff" if "i < 6" for i
    using that by (simp add: nth_append)
  have rep: "?payload ! (6 + 6 * k + j) = A ! j" if "k < 16" "j < 6" for k j
  proof -
    have "?payload ! (6 + 6 * k + j) = concat (replicate 16 A) ! (length A * k + j)"
      using assms(2) by (simp add: nth_append)
    also have "\<dots> = A ! j"
      using that assms(2) by (intro concat_replicate_nth) simp_all
    finally show ?thesis .
  qed
  show ?thesis
    using run len sync rep by blast
qed

theorem createWOLPayload_magic_packet_witness:
  "macAddress flags_example = Some [0xAA, 0xBB, 0xCC, 0xDD, 0xEE, 0xFF] \<and>
   length [0xAA, 0xBB, 0xCC, 0xDD, 0xEE, 0xFF :: byte] = 6 \<and>
   (\<exists>payload. createWOLPayload flags_example = Return payload \<and> length payload = 102 \<and>
      (\<forall>i<6. payload ! i = 0xff) \<and>
      (\<forall>k<16. \<forall>j<6. payload ! (6 + 6 * k + j) = [0xAA, 0xBB, 0xCC, 0xDD, 0xEE, 0xFF] ! j))"
proof -
  have m: "macAddress flags_example = Some [0xAA, 0xBB, 0xCC, 0xDD, 0xEE, 0xFF]"
    by (simp add: flags_example_def)
  have l: "length [0xAA, 0xBB, 0xCC, 0xDD, 0xEE, 0xFF :: byte] = 6"
    by simp
  show ?thesis
    using m l createWOLPayload_magic_packet [OF m l] by blast
qed

subsection \<open>The source address resolver\<close>

lemma To4_length: "To4 a = Some v \<Longrightarrow> length v = 4"
  by (auto simp: To4_def split: if_splits)

lemma IsLoopback_ipv4: "length v = 4 \<Longrightarrow> IsLoopback v = (hd v = 127)"
  by (cases v) (simp_all add: IsLoopback_def To4_def)

lemma loop_find:
  "addressFromNetworkAdapter_loop addrs =
     (case find qualifying addrs of
        None \<Rightarrow> None
      | Some a \<Rightarrow> map_option (\<lambda>v. \<lparr>IP = v, Port = 7\<rparr>) (ipv4_of a))"
proof (induction addrs)
  case Nil
  show ?case by simp
next
  case (Cons a addrs)
  show ?case
  proof (cases a)
    case (IPNet x m)
    show ?thesis
    proof (cases "To4 x")
      case None
      then show ?thesis using IPNet Cons.IH by (simp add: qualifying_def ipv4_of_def)
    next
      case (Some v)
      then have "IsLoopback v = (hd v = 127)"
        by (intro IsLoopback_ipv4) (rule To4_length)
      then show ?thesis
        using IPNet Some Cons.IH
        by (simp add: qualifying_def ipv4_of_def wakeOnLanUDPPort_def)
    qed
  next
    case (OtherAddr x)
    then show ?thesis using Cons.IH by (simp add: qualifying_def ipv4_of_def)
  qed
qed

lemma qualifying_ipv4: "qualifying a \<Longrightarrow> \<exists>v. ipv4_of a = Some v"
  by (auto simp: qualifying_def split: option.splits)

lemma loop_None_iff:
  "addressFromNetworkAdapter_loop addrs = None \<longleftrightarrow> (\<forall>i<length addrs. \<not> qualifying (addrs ! i))"
proof -
  have "addressFromNetworkAdapter_loop addrs = None \<longleftrightarrow> find qualifying addrs = None"
    unfolding loop_find
    by (auto split: option.splits dest!: find_Some_iff [THEN iffD1] qualifying_ipv4)
  also have "\<dots> \<longleftrightarrow> (\<forall>a\<in>set addrs. \<not> qualifying a)"
    by (auto simp: find_None_iff)
  also have "\<dots> \<longleftrightarrow> (\<forall>i<length addrs. \<not> qualifying (addrs ! i))"
    by (rule all_set_conv_all_nth)
  finally show ?thesis .
qed

lemma loop_Some_iff:
  "addressFromNetworkAdapter_loop addrs = Some u \<longleftrightarrow>
     (\<exists>i v. i < length addrs \<and> qualifying (addrs ! i) \<and> (\<forall>j<i. \<not> qualifying (addrs ! j)) \<and>
        ipv4_of (addrs ! i) = Some v \<and> u = \<lparr>IP = v, Port = 7\<rparr>)"
  (is "?l \<longleftrightarrow> ?r")
proof
  assume ?l
  then obtain a v where f: "find qualifying addrs = Some a"
    and v: "ipv4_of a = Some v" and u: "u = \<lparr>IP = v, Port = 7\<rparr>"
    unfolding loop_find by (auto split: option.splits)
  from f obtain i where "i < length addrs" "qualifying (addrs ! i)" "a = addrs ! i"
    "\<forall>j<i. \<not> qualifying (addrs ! j)"
    unfolding find_Some_iff by blast
  with v u show ?r by blast
next
  assume ?r
  then obtain i v where i: "i < length addrs" "qualifying (addrs ! i)"
    "\<forall>j<i. \<not> qualifying (addrs ! j)" and v: "ipv4_of (addrs ! i) = Some v"
    and u: "u = \<lparr>IP = v, Port = 7\<rparr>"
    by blast
  from i have "find qualifying addrs = Some (addrs ! i)"
    unfolding find_Some_iff by blast
  with v u show ?l unfolding loop_find by simp
qed

lemma loop_only_qualifying:
  assumes "set addrs = {lo, real, v6}"
    and lo: "ipv4_of lo = Some l" "hd l = 127"
    and v6: "ipv4_of v6 = None"
    and real: "ipv4_of real = Some v" "hd v \<noteq> 127"
  shows "addressFromNetworkAdapter_loop addrs = Some \<lparr>IP = v, Port = 7\<rparr>"
proof -
  have q: "qualifying real" "\<not> qualifying lo" "\<not> qualifying v6"
    using lo v6 real by (simp_all add: qualifying_def)
  have "real \<in> set addrs" using assms(1) by simp
  then obtain a where f: "find qualifying addrs = Some a"
    using q(1) by (cases "find qualifying addrs") (auto simp: find_None_iff)
  then have "a \<in> set addrs" "qualifying a"
    unfolding find_Some_iff by auto
  then have "a = real"
    using q assms(1) by auto
  then show ?thesis
    using f real unfolding loop_find by simp
qed

text \<open>
  C4. For every list of addresses bound to an adapter, the resolver returns the first
  address in enumeration order that is an IPv4 address and not a loopback address
  (127.0.0.0/8), with port 7, and none exactly when no entry qualifies; IPv6 and loopback
  entries, and entries that are not IP networks, are passed over. If the list consists of
  a loopback IPv4 address, a real IPv4 address and an IPv6 address, in any order, the real
  one is selected.
\<close>

theorem addressFromNetworkAdapter_first_qualifying:
  assumes "Addrs networkAdapter = Inr addrs"
  shows "\<exists>r. addressFromNetworkAdapter networkAdapter = ([], Return r) \<and>
     (r = None \<longleftrightarrow> (\<forall>i<length addrs. \<not> qualifying (addrs ! i))) \<and>
     (\<forall>u. r = Some u \<longleftrightarrow>
        (\<exists>i v. i < length addrs \<and> qualifying (addrs ! i) \<and>
           (\<forall>j<i. \<not> qualifying (addrs ! j)) \<and>
           ipv4_of (addrs ! i) = Some v \<and> u = \<lparr>IP = v, Port = 7\<rparr>)) \<and>
     (\<forall>lo real v6 l v.
        set addrs = {lo, real, v6} \<and> ipv4_of lo = Some l \<and> hd l = 127 \<and>
        ipv4_of v6 = None \<and> ipv4_of real = Some v \<and> hd v \<noteq> 127 \<longrightarrow>
        r = Some \<lparr>IP = v, Port = 7\<rparr>)"
proof -
  let ?r = "addressFromNetworkAdapter_loop addrs"
  have run: "addressFromNetworkAdapter networkAdapter = ([], Return ?r)"
    using assms by (simp add: addressFromNetworkAdapter_def)
  have ex: "\<forall>lo real v6 l v.
        set addrs = {lo, real, v6} \<and> ipv4_of lo = Some l \<and> hd l = 127 \<and>
        ipv4_of v6 = None \<and> ipv4_of real = Some v \<and> hd v \<noteq> 127 \<longrightarrow>
        ?r = Some \<lparr>IP = v, Port = 7\<rparr>"
    using loop_only_qualifying by blast
  show ?thesis
  proof (intro exI conjI)
    show "addressFromNetworkAdapter networkAdapter = ([], Return ?r)"
      by (rule run)
    show "?r = None \<longleftrightarrow> (\<forall>i<length addrs. \<not> qualifying (addrs ! i))"
      by (rule loop_None_iff)
    show "\<forall>u. ?r = Some u \<longleftrightarrow>
        (\<exists>i v. i < length addrs \<and> qualifying (addrs ! i) \<and>
           (\<forall>j<i. \<not> qualifying (addrs ! j)) \<and>
           ipv4_of (addrs ! i) = Some v \<and> u = \<lparr>IP = v, Port = 7\<rparr>)"
      by (intro allI loop_Some_iff)
    show "\<forall>lo real v6 l v.
        set addrs = {lo, real, v6} \<and> ipv4_of lo = Some l \<and> hd l = 127 \<and>
        ipv4_of v6 = None \<and> ipv4_of real = Some v \<and> hd v \<noteq> 127 \<longrightarrow>
        ?r = Some \<lparr>IP = v, Port = 7\<rparr>"
      by (rule ex)
  qed
qed

theorem addressFromNetworkAdapter_first_qualifying_witness:
  "Addrs adapter_eth0 = Inr [loopback_v4, real_v4, link_local_v6] \<and>
   ipv4_of loopback_v4 = Some [127, 0, 0, 1] \<and>
   ipv4_of link_local_v6 = None \<and>
   ipv4_of real_v4 = Some [192, 168, 1, 10] \<and>
   addressFromNetworkAdapter adapter_eth0 =
     ([], Return (Some \<lparr>IP = [192, 168, 1, 10], Port = 7\<rparr>))"
proof -
  have a: "Addrs adapter_eth0 = Inr [loopback_v4, real_v4, link_local_v6]"
    by (simp add: adapter_eth0_def)
  have lo: "ipv4_of loopback_v4 = Some [127, 0, 0, 1]"
    by (simp add: ipv4_of_def loopback_v4_def To4_def)
  have v6: "ipv4_of link_local_v6 = None"
    by (simp add: ipv4_of_def link_local_v6_def To4_def)
  have real: "ipv4_of real_v4 = Some [192, 168, 1, 10]"
    by (simp add: ipv4_of_def real_v4_def To4_def)
  have s: "set [loopback_v4, real_v4, link_local_v6] = {loopback_v4, real_v4, link_local_v6}"
    by simp
  have h: "hd [127, 0, 0, 1 :: byte] = 127" "hd [192, 168, 1, 10 :: byte] \<noteq> 127"
    by simp_all
  from addressFromNetworkAdapter_first_qualifying [OF a]
  obtain r where run: "addressFromNetworkAdapter adapter_eth0 = ([], Return r)"
    and sel: "\<forall>lo real v6 l v.
        set [loopback_v4, real_v4, link_local_v6] = {lo, real, v6} \<and> ipv4_of lo = Some l \<and>
        hd l = 127 \<and> ipv4_of v6 = None \<and> ipv4_of real = Some v \<and> hd v \<noteq> 127 \<longrightarrow>
        r = Some \<lparr>IP = v, Port = 7\<rparr>"
    by blast
  from sel s lo v6 real h have "r = Some \<lparr>IP = [192, 168, 1, 10], Port = 7\<rparr>"
    by blast
  with run a lo v6 real show ?thesis by simp
qed

subsection \<open>Sending\<close>

lemma snd_io_bind:
  "snd (io_bind m f) =
     (case snd m of Return a \<Rightarrow> snd (f a) | Exit c \<Rightarrow> Exit c | Panic \<Rightarrow> Panic)"
  by (cases m) (auto simp: io_bind_def split: result.splits prod.splits)

lemma fst_io_bind:
  "fst (io_bind m f) =
     (case snd m of Return a \<Rightarrow> fst m @ fst (f a) | Exit c \<Rightarrow> fst m | Panic \<Rightarrow> fst m)"
  by (cases m) (auto simp: io_bind_def split: result.splits prod.splits)

lemma io_bind_Return: "io_bind (es, Return a) f = (es @ fst (f a), snd (f a))"
  by (simp add: io_bind_def split: prod.splits)

lemma io_bind_Exit: "io_bind (es, Exit c) f = (es, Exit c)"
  by (simp add: io_bind_def)

lemma payloadLength_102: "payloadLength = 102"
  by (simp add: payloadLength_def eui48Length_def)

lemma sendWOLPayload_status:
  "snd (sendWOLPayload env conn payload) =
     (case Write env conn payload of
        (n, Some e) \<Rightarrow> Exit wolPayloadSendingError
      | (n, None) \<Rightarrow> if n = 102 then Return () else Exit notAllWOLPayloadBytesSentError)"
  by (simp add: sendWOLPayload_def snd_io_bind payloadLength_102 split: prod.splits option.splits)

lemma sendWOLPayload_writes:
  "filter is_write (fst (sendWOLPayload env conn payload)) = [ConnWrite conn payload]"
  by (simp add: sendWOLPayload_def fst_io_bind split: prod.splits option.splits)

text \<open>
  C5. The send operation reports success if and only if the transport reports no error
  and exactly 102 bytes written. A write error ends the process with the send-failure
  code, any other byte count with the partial-send code, which differs from every other
  exit code. There is one write, of the whole payload: no retry, no resend.
\<close>

theorem sendWOLPayload_success_iff:
  "(snd (sendWOLPayload env conn payload) = Return () \<longleftrightarrow>
      Write env conn payload = (102, None)) \<and>
   (\<forall>n e. Write env conn payload = (n, Some e) \<longrightarrow>
      snd (sendWOLPayload env conn payload) = Exit wolPayloadSendingError) \<and>
   (\<forall>n. Write env conn payload = (n, None) \<and> n \<noteq> 102 \<longrightarrow>
      snd (sendWOLPayload env conn payload) = Exit notAllWOLPayloadBytesSentError) \<and>
   wolPayloadSendingError \<noteq> 0 \<and>
   notAllWOLPayloadBytesSentError \<notin>
     {0, 2, macAddressNotEUI48Error, macAddressNotInformedError,
      networkAdapterAddressesFetchingError, networkAdapterFetchingError,
      networkAdaptersFetchingError, udpConnectionError, wolPayloadSendingError} \<and>
   filter is_write (fst (sendWOLPayload env conn payload)) = [ConnWrite conn payload]"
proof -
  have codes: "wolPayloadSendingError \<noteq> 0"
    "notAllWOLPayloadBytesSentError \<notin>
     {0, 2, macAddressNotEUI48Error, macAddressNotInformedError,
      networkAdapterAddressesFetchingError, networkAdapterFetchingError,
      networkAdaptersFetchingError, udpConnectionError, wolPayloadSendingError}"
    by (simp_all add: wolPayloadSendingError_def notAllWOLPayloadBytesSentError_def
        macAddressNotEUI48Error_def macAddressNotInformedError_def
        networkAdapterAddressesFetchingError_def networkAdapterFetchingError_def
        networkAdaptersFetchingError_def udpConnectionError_def)
  obtain n err where w: "Write env conn payload = (n, err)"
    by (cases "Write env conn payload")
  have ok: "snd (sendWOLPayload env conn payload) = Return () \<longleftrightarrow>
      Write env conn payload = (102, None)"
    unfolding sendWOLPayload_status w by (cases err) simp_all
  have failed: "\<forall>n e. Write env conn payload = (n, Some e) \<longrightarrow>
      snd (sendWOLPayload env conn payload) = Exit wolPayloadSendingError"
    unfolding sendWOLPayload_status by simp
  have partial: "\<forall>n. Write env conn payload = (n, None) \<and> n \<noteq> 102 \<longrightarrow>
      snd (sendWOLPayload env conn payload) = Exit notAllWOLPayloadBytesSentError"
    unfolding sendWOLPayload_status by simp
  show ?thesis
    using ok failed partial codes sendWOLPayload_writes [of env conn payload]
    by (intro conjI)
qed

theorem sendWOLPayload_success_iff_witness:
  "Write env_example conn_example (magic_packet mac_example) = (102, None) \<and>
   snd (sendWOLPayload env_example conn_example (magic_packet mac_example)) = Return () \<and>
   Write env_partial conn_example (magic_packet mac_example) = (60, None) \<and>
   snd (sendWOLPayload env_partial conn_example (magic_packet mac_example)) = Exit 8 \<and>
   Write env_write_error conn_example (magic_packet mac_example) = (0, Some ''network is unreachable'') \<and>
   snd (sendWOLPayload env_write_error conn_example (magic_packet mac_example)) = Exit 10"
proof -
  let ?p = "magic_packet mac_example"
  have w1: "Write env_example conn_example ?p = (102, None)"
    by (simp add: env_example_def magic_packet_def mac_example_def length_concat_replicate)
  have w2: "Write env_partial conn_example ?p = (60, None)"
    by (simp add: env_partial_def)
  have w3: "Write env_write_error conn_example ?p = (0, Some ''network is unreachable'')"
    by (simp add: env_write_error_def)
  have r1: "snd (sendWOLPayload env_example conn_example ?p) = Return ()"
    using sendWOLPayload_success_iff [of env_example conn_example ?p] w1 by blast
  have r2: "snd (sendWOLPayload env_partial conn_example ?p) = Exit 8"
    using sendWOLPayload_success_iff [of env_partial conn_example ?p] w2
    by (simp add: notAllWOLPayloadBytesSentError_def)
  have r3: "snd (sendWOLPayload env_write_error conn_example ?p) = Exit 10"
    using sendWOLPayload_success_iff [of env_write_error conn_example ?p] w3
    by (simp add: wolPayloadSendingError_def)
  show ?thesis
    using w1 w2 w3 r1 r2 r3 by (intro conjI)
qed

subsection \<open>Exit status of the program\<close>

subsubsection \<open>Flag parsing\<close>

lemma flag_Parse_result:
  "(\<exists>es. flag_Parse env args flags = (es, Exit 2) \<and> list_all net_free es) \<or>
   (\<exists>flags'. flag_Parse env args flags = ([], Return flags'))"
proof (induction env args flags rule: flag_Parse.induct)
  case (4 env s rest flags)
  then show ?case
    by (cases "ParseMAC env s") (simp_all add: parseMACAddressFlag_def)
qed simp_all

lemma flag_Parse_unparseable:
  "MacAddressArg s \<in> set args \<Longrightarrow> isl (ParseMAC env s) \<Longrightarrow>
   snd (flag_Parse env args flags) = Exit 2"
proof (induction env args flags rule: flag_Parse.induct)
  case (4 env s' rest flags)
  then show ?case
    by (cases "ParseMAC env s'") (auto simp: parseMACAddressFlag_def)
qed simp_all

lemma flag_Parse_Return:
  assumes "snd (flag_Parse env args flags) = Return flags'"
  shows "flag_Parse env args flags = ([], Return flags')"
  using flag_Parse_result [of env args flags] assms by auto

lemma createWOLPayload_magic:
  "macAddress flags = Some m \<Longrightarrow> length m = 6 \<Longrightarrow>
   createWOLPayload flags = Return (magic_packet m)"
  by (simp add: createWOLPayload_eq magic_packet_def)

subsubsection \<open>The exit status of the send path\<close>

lemma addressFromNetworkAdapterName_cases:
  "addressFromNetworkAdapterName env name =
     (case InterfaceByName env name of
        Inl e \<Rightarrow>
          ([Fprintf_Stderr
              ''The following error occurred when fetching the network adapter named %s: %s\<newline>''
              [ArgStr name, ArgStr e]], Exit networkAdapterFetchingError)
      | Inr ifc \<Rightarrow>
          (case Addrs ifc of
             Inl e \<Rightarrow>
               ([Fprintf_Stderr
                  ''The following error occurred when fetching the addresses of the network adapter of index %d: %s\<newline>''
                  [ArgInt (Index ifc), ArgStr e]], Exit networkAdapterAddressesFetchingError)
           | Inr addrs \<Rightarrow> ([], Return (addressFromNetworkAdapter_loop addrs))))"
  by (simp add: addressFromNetworkAdapterName_def addressFromNetworkAdapter_def split: sum.splits)

lemma openUDPConnection_status:
  "snd (openUDPConnection env flags) =
     (case InterfaceByName env (networkAdapterName flags) of
        Inl e \<Rightarrow> Exit networkAdapterFetchingError
      | Inr ifc \<Rightarrow>
          (case Addrs ifc of
             Inl e \<Rightarrow> Exit networkAdapterAddressesFetchingError
           | Inr addrs \<Rightarrow>
               (case DialUDP env (addressFromNetworkAdapter_loop addrs) remoteAddress of
                  Inl e \<Rightarrow> Exit udpConnectionError
                | Inr conn \<Rightarrow> Return conn)))"
  by (simp add: openUDPConnection_def addressFromNetworkAdapterName_cases snd_io_bind
      split: sum.splits)

lemma wakeRemoteComputer_status:
  assumes "macAddress flags = Some m" and "length m = 6"
  shows "snd (wakeRemoteComputer env flags) =
     (case snd (openUDPConnection env flags) of
        Return conn \<Rightarrow> snd (sendWOLPayload env conn (magic_packet m))
      | Exit c \<Rightarrow> Exit c
      | Panic \<Rightarrow> Panic)"
  by (simp add: wakeRemoteComputer_def snd_io_bind createWOLPayload_magic [OF assms]
      closeUDPConnection_def split: result.splits)

lemma main_status:
  assumes "snd (flag_Parse env args initialFlags) = Return flags"
  shows "snd (main env args) =
     (case snd (checkParsedMACAddress flags) of
        Return u \<Rightarrow>
          if listNetworkAdapters flags then snd (listNetworkAdapters_run env)
          else snd (wakeRemoteComputer env flags)
      | Exit c \<Rightarrow> Exit c
      | Panic \<Rightarrow> Panic)"
  using assms
  by (simp add: main_def parseProgramFlags_def snd_io_bind split: result.splits)

lemma send_path_exit_code:
  assumes "snd (flag_Parse env args initialFlags) = Return flags"
    and "\<not> listNetworkAdapters flags"
  shows "exit_code env args =
     (case macAddress flags of
        None \<Rightarrow> macAddressNotInformedError
      | Some m \<Rightarrow>
          if length m \<noteq> 6 then macAddressNotEUI48Error
          else
            (case InterfaceByName env (networkAdapterName flags) of
               Inl e \<Rightarrow> networkAdapterFetchingError
             | Inr ifc \<Rightarrow>
                 (case Addrs ifc of
                    Inl e \<Rightarrow> networkAdapterAddressesFetchingError
                  | Inr addrs \<Rightarrow>
                      (case DialUDP env (addressFromNetworkAdapter_loop addrs) remoteAddress of
                         Inl e \<Rightarrow> udpConnectionError
                       | Inr conn \<Rightarrow>
                           (case Write env conn (magic_packet m) of
                              (n, Some e) \<Rightarrow> wolPayloadSendingError
                            | (n, None) \<Rightarrow>
                                if n = 102 then 0 else notAllWOLPayloadBytesSentError)))))"
proof (cases "macAddress flags")
  case None
  then show ?thesis
    using assms by (simp add: exit_code_def main_status checkParsedMACAddress_def)
next
  case (Some m)
  show ?thesis
  proof (cases "length m = 6")
    case False
    then show ?thesis
      using assms Some
      by (simp add: exit_code_def main_status checkParsedMACAddress_def eui48Length_def)
  next
    case True
    have "snd (main env args) = snd (wakeRemoteComputer env flags)"
      using assms Some True
      by (simp add: main_status checkParsedMACAddress_def eui48Length_def)
    then show ?thesis
      using Some True
      by (simp add: exit_code_def wakeRemoteComputer_status [OF Some True]
          openUDPConnection_status sendWOLPayload_status
          split: sum.splits prod.splits option.splits)
  qed
qed


subsubsection \<open>The listing\<close>

lemma addressFromNetworkAdapter_ok:
  "Addrs a = Inr addrs \<Longrightarrow> addressFromNetworkAdapter a = ([], Return (resolved a))"
  by (simp add: addressFromNetworkAdapter_def resolved_def)

lemma addressFromNetworkAdapter_failed:
  "Addrs a = Inl e \<Longrightarrow>
   addressFromNetworkAdapter a =
     ([Fprintf_Stderr
         ''The following error occurred when fetching the addresses of the network adapter of index %d: %s\<newline>''
         [ArgInt (Index a), ArgStr e]],
      Exit networkAdapterAddressesFetchingError)"
  by (simp add: addressFromNetworkAdapter_def)

lemma listing_of_Cons:
  "listing_of (a # rest) =
     (case resolved a of Some u \<Rightarrow> adapter_line a u # listing_of rest | None \<Rightarrow> listing_of rest)"
  by (simp add: listing_of_def map_filter_simps split: option.splits)

lemma listNetworkAdapters_loop_Cons_ok:
  assumes "Addrs a = Inr addrs"
  shows "listNetworkAdapters_loop (a # rest) =
     (listing_of [a] @ fst (listNetworkAdapters_loop rest), snd (listNetworkAdapters_loop rest))"
  by (cases "resolved a")
    (simp_all add: addressFromNetworkAdapter_ok [OF assms] io_bind_Return listing_of_Cons
      listing_of_def map_filter_simps adapter_line_def)

lemma listNetworkAdapters_loop_ok:
  "\<forall>a\<in>set ifs. \<exists>addrs. Addrs a = Inr addrs \<Longrightarrow>
   listNetworkAdapters_loop ifs = (listing_of ifs, Return ())"
proof (induction ifs)
  case Nil
  show ?case by (simp add: listing_of_def map_filter_simps)
next
  case (Cons a ifs)
  then obtain addrs where a: "Addrs a = Inr addrs" by auto
  have "listNetworkAdapters_loop ifs = (listing_of ifs, Return ())"
    using Cons by simp
  then show ?case
    unfolding listNetworkAdapters_loop_Cons_ok [OF a]
    by (simp add: listing_of_def map_filter_simps split: option.splits)
qed

lemma listNetworkAdapters_loop_failed:
  assumes "\<forall>a\<in>set pre. \<exists>addrs. Addrs a = Inr addrs" and "Addrs bad = Inl e"
  shows "listNetworkAdapters_loop (pre @ bad # post) =
     (listing_of pre @
      [Fprintf_Stderr
         ''The following error occurred when fetching the addresses of the network adapter of index %d: %s\<newline>''
         [ArgInt (Index bad), ArgStr e]],
      Exit networkAdapterAddressesFetchingError)"
  using assms(1)
proof (induction pre)
  case Nil
  show ?case
    by (simp add: addressFromNetworkAdapter_failed [OF assms(2)] io_bind_Exit listing_of_def
        map_filter_simps)
next
  case (Cons a pre)
  then obtain addrs where a: "Addrs a = Inr addrs" by auto
  have "listNetworkAdapters_loop (pre @ bad # post) =
     (listing_of pre @
      [Fprintf_Stderr
         ''The following error occurred when fetching the addresses of the network adapter of index %d: %s\<newline>''
         [ArgInt (Index bad), ArgStr e]],
      Exit networkAdapterAddressesFetchingError)"
    using Cons by simp
  then show ?case
    using listNetworkAdapters_loop_Cons_ok [OF a, of "pre @ bad # post"]
    by (simp add: listing_of_def map_filter_simps split: option.splits)
qed

lemma first_failing_adapter:
  assumes "\<exists>a\<in>set ifs. isl (Addrs a)"
  shows "\<exists>pre bad post e. ifs = pre @ bad # post \<and> (\<forall>a\<in>set pre. \<exists>addrs. Addrs a = Inr addrs) \<and>
           Addrs bad = Inl e"
proof -
  from assms obtain pre bad post where s: "ifs = pre @ bad # post" "isl (Addrs bad)"
    "\<forall>a\<in>set pre. \<not> isl (Addrs a)"
    using split_list_first_prop [of ifs "\<lambda>a. isl (Addrs a)"] by blast
  from s(2) obtain e where "Addrs bad = Inl e"
    by (cases "Addrs bad") auto
  moreover have "\<forall>a\<in>set pre. \<exists>addrs. Addrs a = Inr addrs"
  proof
    fix a assume "a \<in> set pre"
    with s(3) have "\<not> isl (Addrs a)" by blast
    then show "\<exists>addrs. Addrs a = Inr addrs" by (cases "Addrs a") auto
  qed
  ultimately show ?thesis using s(1) by blast
qed

lemma listNetworkAdapters_loop_status:
  "snd (listNetworkAdapters_loop ifs) =
     (if \<exists>a\<in>set ifs. isl (Addrs a) then Exit networkAdapterAddressesFetchingError
      else Return ())"
proof (cases "\<exists>a\<in>set ifs. isl (Addrs a)")
  case True
  from first_failing_adapter [OF True] obtain pre bad post e where
    "ifs = pre @ bad # post" "\<forall>a\<in>set pre. \<exists>addrs. Addrs a = Inr addrs" "Addrs bad = Inl e"
    by blast
  then show ?thesis
    using True listNetworkAdapters_loop_failed [of pre bad e post] by simp
next
  case False
  then have "\<forall>a\<in>set ifs. \<exists>addrs. Addrs a = Inr addrs"
    by (metis isl_def sum.exhaust_sel sum.collapse(2))
  then show ?thesis
    using False by (simp add: listNetworkAdapters_loop_ok)
qed

lemma list_path_exit_code:
  assumes "snd (flag_Parse env args initialFlags) = Return flags"
    and "listNetworkAdapters flags"
  shows "exit_code env args =
     (case interfaceTable env of
        Inl e \<Rightarrow> networkAdaptersFetchingError
      | Inr ifs \<Rightarrow>
          if \<exists>a\<in>set ifs. isl (Addrs a) then networkAdapterAddressesFetchingError else 0)"
  using assms
  by (simp add: exit_code_def main_status checkParsedMACAddress_def listNetworkAdapters_run_def
      Interfaces_def listNetworkAdapters_loop_status split: sum.splits)

subsection \<open>Exit codes\<close>

lemma codes_pairwise_distinct:
  "distinct [0, 2, macAddressNotEUI48Error, macAddressNotInformedError,
     networkAdapterAddressesFetchingError, networkAdapterFetchingError,
     networkAdaptersFetchingError, notAllWOLPayloadBytesSentError, udpConnectionError,
     wolPayloadSendingError]"
  by (simp add: macAddressNotEUI48Error_def macAddressNotInformedError_def
      networkAdapterAddressesFetchingError_def networkAdapterFetchingError_def
      networkAdaptersFetchingError_def notAllWOLPayloadBytesSentError_def
      udpConnectionError_def wolPayloadSendingError_def)

lemma unparseable_exit_code:
  assumes "MacAddressArg s \<in> set args" and "isl (ParseMAC env s)"
  shows "exit_code env args = 2"
  using flag_Parse_unparseable [OF assms, of initialFlags]
  by (simp add: exit_code_def main_def parseProgramFlags_def snd_io_bind)

text \<open>
  C6. Success exits 0, and each of the eight fatal conditions ends the process with a
  code of its own, none of them 0: an unparseable address (2, from the flag package), a
  missing address, an address of the wrong length, a failed adapter lookup, a failed
  address enumeration (when sending and when listing), a socket that does not open, a
  failed send and a partial send. The conditions are met in this order; the ten codes of
  the program, 0 and 2 included, are pairwise different.
\<close>

theorem exit_codes:
  "distinct [0, 2, macAddressNotEUI48Error, macAddressNotInformedError,
     networkAdapterAddressesFetchingError, networkAdapterFetchingError,
     networkAdaptersFetchingError, notAllWOLPayloadBytesSentError, udpConnectionError,
     wolPayloadSendingError] \<and>
   ((\<exists>s. MacAddressArg s \<in> set args \<and> isl (ParseMAC env s)) \<longrightarrow> exit_code env args = 2) \<and>
   (\<forall>flags. snd (flag_Parse env args initialFlags) = Return flags \<and> \<not> listNetworkAdapters flags \<longrightarrow>
      (macAddress flags = None \<longrightarrow> exit_code env args = macAddressNotInformedError) \<and>
      (\<forall>m. macAddress flags = Some m \<and> length m \<noteq> 6 \<longrightarrow>
         exit_code env args = macAddressNotEUI48Error) \<and>
      (\<forall>m. macAddress flags = Some m \<and> length m = 6 \<longrightarrow>
         (\<forall>e. InterfaceByName env (networkAdapterName flags) = Inl e \<longrightarrow>
            exit_code env args = networkAdapterFetchingError) \<and>
         (\<forall>ifc. InterfaceByName env (networkAdapterName flags) = Inr ifc \<longrightarrow>
            (\<forall>e. Addrs ifc = Inl e \<longrightarrow>
               exit_code env args = networkAdapterAddressesFetchingError) \<and>
            (\<forall>addrs. Addrs ifc = Inr addrs \<longrightarrow>
               (\<forall>e. DialUDP env (addressFromNetworkAdapter_loop addrs) remoteAddress = Inl e \<longrightarrow>
                  exit_code env args = udpConnectionError) \<and>
               (\<forall>conn. DialUDP env (addressFromNetworkAdapter_loop addrs) remoteAddress = Inr conn \<longrightarrow>
                  (\<forall>n e. Write env conn (magic_packet m) = (n, Some e) \<longrightarrow>
                     exit_code env args = wolPayloadSendingError) \<and>
                  (\<forall>n. Write env conn (magic_packet m) = (n, None) \<and> n \<noteq> 102 \<longrightarrow>
                     exit_code env args = notAllWOLPayloadBytesSentError) \<and>
                  (Write env conn (magic_packet m) = (102, None) \<longrightarrow>
                     exit_code env args = 0)))))) \<and>
   (\<forall>flags ifs. snd (flag_Parse env args initialFlags) = Return flags \<and> listNetworkAdapters flags \<and>
      interfaceTable env = Inr ifs \<longrightarrow>
      ((\<exists>a\<in>set ifs. isl (Addrs a)) \<longrightarrow>
         exit_code env args = networkAdapterAddressesFetchingError) \<and>
      ((\<forall>a\<in>set ifs. \<not> isl (Addrs a)) \<longrightarrow> exit_code env args = 0))"
proof (intro conjI)
  show "(\<exists>s. MacAddressArg s \<in> set args \<and> isl (ParseMAC env s)) \<longrightarrow> exit_code env args = 2"
    using unparseable_exit_code by blast
next
  show "\<forall>flags ifs. snd (flag_Parse env args initialFlags) = Return flags \<and>
      listNetworkAdapters flags \<and> interfaceTable env = Inr ifs \<longrightarrow>
      ((\<exists>a\<in>set ifs. isl (Addrs a)) \<longrightarrow>
         exit_code env args = networkAdapterAddressesFetchingError) \<and>
      ((\<forall>a\<in>set ifs. \<not> isl (Addrs a)) \<longrightarrow> exit_code env args = 0)"
    by (auto simp: list_path_exit_code)
next
  show "\<forall>flags. snd (flag_Parse env args initialFlags) = Return flags \<and> \<not> listNetworkAdapters flags \<longrightarrow>
      (macAddress flags = None \<longrightarrow> exit_code env args = macAddressNotInformedError) \<and>
      (\<forall>m. macAddress flags = Some m \<and> length m \<noteq> 6 \<longrightarrow>
         exit_code env args = macAddressNotEUI48Error) \<and>
      (\<forall>m. macAddress flags = Some m \<and> length m = 6 \<longrightarrow>
         (\<forall>e. InterfaceByName env (networkAdapterName flags) = Inl e \<longrightarrow>
            exit_code env args = networkAdapterFetchingError) \<and>
         (\<forall>ifc. InterfaceByName env (networkAdapterName flags) = Inr ifc \<longrightarrow>
            (\<forall>e. Addrs ifc = Inl e \<longrightarrow>
               exit_code env args = networkAdapterAddressesFetchingError) \<and>
            (\<forall>addrs. Addrs ifc = Inr addrs \<longrightarrow>
               (\<forall>e. DialUDP env (addressFromNetworkAdapter_loop addrs) remoteAddress = Inl e \<longrightarrow>
                  exit_code env args = udpConnectionError) \<and>
               (\<forall>conn. DialUDP env (addressFromNetworkAdapter_loop addrs) remoteAddress = Inr conn \<longrightarrow>
                  (\<forall>n e. Write env conn (magic_packet m) = (n, Some e) \<longrightarrow>
                     exit_code env args = wolPayloadSendingError) \<and>
                  (\<forall>n. Write env conn (magic_packet m) = (n, None) \<and> n \<noteq> 102 \<longrightarrow>
                     exit_code env args = notAllWOLPayloadBytesSentError) \<and>
                  (Write env conn (magic_packet m) = (102, None) \<longrightarrow>
                     exit_code env args = 0)))))"
  proof (intro allI impI, elim conjE)
    fix flags
    assume p: "snd (flag_Parse env args initialFlags) = Return flags"
      and l: "\<not> listNetworkAdapters flags"
    note code = send_path_exit_code [OF p l]
    show "(macAddress flags = None \<longrightarrow> exit_code env args = macAddressNotInformedError) \<and>
      (\<forall>m. macAddress flags = Some m \<and> length m \<noteq> 6 \<longrightarrow>
         exit_code env args = macAddressNotEUI48Error) \<and>
      (\<forall>m. macAddress flags = Some m \<and> length m = 6 \<longrightarrow>
         (\<forall>e. InterfaceByName env (networkAdapterName flags) = Inl e \<longrightarrow>
            exit_code env args = networkAdapterFetchingError) \<and>
         (\<forall>ifc. InterfaceByName env (networkAdapterName flags) = Inr ifc \<longrightarrow>
            (\<forall>e. Addrs ifc = Inl e \<longrightarrow>
               exit_code env args = networkAdapterAddressesFetchingError) \<and>
            (\<forall>addrs. Addrs ifc = Inr addrs \<longrightarrow>
               (\<forall>e. DialUDP env (addressFromNetworkAdapter_loop addrs) remoteAddress = Inl e \<longrightarrow>
                  exit_code env args = udpConnectionError) \<and>
               (\<forall>conn. DialUDP env (addressFromNetworkAdapter_loop addrs) remoteAddress = Inr conn \<longrightarrow>
                  (\<forall>n e. Write env conn (magic_packet m) = (n, Some e) \<longrightarrow>
                     exit_code env args = wolPayloadSendingError) \<and>
                  (\<forall>n. Write env conn (magic_packet m) = (n, None) \<and> n \<noteq> 102 \<longrightarrow>
                     exit_code env args = notAllWOLPayloadBytesSentError) \<and>
                  (Write env conn (magic_packet m) = (102, None) \<longrightarrow>
                     exit_code env args = 0)))))"
      unfolding code by simp
  qed
qed (use codes_pairwise_distinct in simp_all)


lemmas example_defs =
  env_example_def env_partial_def env_write_error_def env_dial_error_def env_broken_def
  adapter_lo_def adapter_eth0_def adapter_broken_def loopback_v4_def
  real_v4_def link_local_v6_def args_example_def args_lo_def args_no_adapter_def
  args_list_def args_unparseable_def args_eui64_def args_tun0_def

lemmas eval_defs =
  parseMACAddressFlag_def initialFlags_def InterfaceByName_def To4_def IsLoopback_def
  magic_packet_def length_concat_replicate remoteAddress_def wakeOnLanUDPPort_def
  opError_def

theorem exit_codes_witness:
  "exit_code env_example args_unparseable = 2 \<and>
   exit_code env_example [] = 4 \<and>
   exit_code env_example args_eui64 = 3 \<and>
   exit_code env_example args_no_adapter = 6 \<and>
   exit_code env_broken args_tun0 = 5 \<and>
   exit_code env_dial_error args_example = 9 \<and>
   exit_code env_write_error args_example = 10 \<and>
   exit_code env_partial args_example = 8 \<and>
   exit_code env_example args_example = 0 \<and>
   exit_code env_broken args_list = 5 \<and>
   exit_code env_example args_list = 0"
proof -
  have c1: "exit_code env_example args_unparseable = 2"
    using exit_codes [where env = env_example and args = args_unparseable]
    by (simp add: example_defs)
  have c2: "exit_code env_example [] = 4"
    using exit_codes [where env = env_example and args = "[]"]
    by (simp add: eval_defs macAddressNotInformedError_def)
  have c3: "exit_code env_example args_eui64 = 3"
    using exit_codes [where env = env_example and args = args_eui64]
    by (simp add: example_defs eval_defs macAddressNotEUI48Error_def)
  have c4: "exit_code env_example args_no_adapter = 6"
    using exit_codes [where env = env_example and args = args_no_adapter]
    by (simp add: example_defs eval_defs networkAdapterFetchingError_def)
  have c5: "exit_code env_broken args_tun0 = 5"
    using exit_codes [where env = env_broken and args = args_tun0]
    by (simp add: example_defs eval_defs networkAdapterAddressesFetchingError_def)
  have c6: "exit_code env_dial_error args_example = 9"
    using exit_codes [where env = env_dial_error and args = args_example]
    by (simp add: example_defs eval_defs udpConnectionError_def)
  have c7: "exit_code env_write_error args_example = 10"
    using exit_codes [where env = env_write_error and args = args_example]
    by (simp add: example_defs eval_defs wolPayloadSendingError_def)
  have c8: "exit_code env_partial args_example = 8"
    using exit_codes [where env = env_partial and args = args_example]
    by (simp add: example_defs eval_defs notAllWOLPayloadBytesSentError_def)
  have c9: "exit_code env_example args_example = 0"
    using exit_codes [where env = env_example and args = args_example]
    by (simp add: example_defs eval_defs)
  have c10: "exit_code env_broken args_list = 5"
    using exit_codes [where env = env_broken and args = args_list]
    by (simp add: example_defs eval_defs networkAdapterAddressesFetchingError_def)
  have c11: "exit_code env_example args_list = 0"
    using exit_codes [where env = env_example and args = args_list]
    by (simp add: example_defs eval_defs)
  show ?thesis
    using c1 c2 c3 c4 c5 c6 c7 c8 c9 c10 c11 by (intro conjI)
qed

subsection \<open>The length check and the builder\<close>

lemma checkParsedMACAddress_Return:
  assumes "snd (checkParsedMACAddress flags) = Return u" and "\<not> listNetworkAdapters flags"
  shows "\<exists>m. macAddress flags = Some m \<and> length m = 6"
  using assms
  by (auto simp: checkParsedMACAddress_def eui48Length_def split: option.splits if_splits)

lemma checkParsedMACAddress_no_panic: "snd (checkParsedMACAddress flags) \<noteq> Panic"
  by (simp add: checkParsedMACAddress_def split: option.splits)

lemma parseProgramFlags_Return:
  assumes "snd (parseProgramFlags env args) = Return flags"
  shows "snd (flag_Parse env args initialFlags) = Return flags \<and>
         snd (checkParsedMACAddress flags) = Return ()"
  using assms
  by (auto simp: parseProgramFlags_def snd_io_bind split: result.splits)

lemma listNetworkAdapters_run_no_panic: "snd (listNetworkAdapters_run env) \<noteq> Panic"
  by (simp add: listNetworkAdapters_run_def listNetworkAdapters_loop_status split: sum.splits)

lemma wakeRemoteComputer_no_panic:
  assumes "macAddress flags = Some m" and "length m = 6"
  shows "snd (wakeRemoteComputer env flags) \<noteq> Panic"
  by (simp add: wakeRemoteComputer_status [OF assms] openUDPConnection_status
      sendWOLPayload_status split: sum.splits prod.splits option.splits)

lemma main_no_panic: "snd (main env args) \<noteq> Panic"
proof -
  from flag_Parse_result [of env args initialFlags]
  consider es where "flag_Parse env args initialFlags = (es, Exit 2)"
    | flags where "flag_Parse env args initialFlags = ([], Return flags)"
    by blast
  then show ?thesis
  proof cases
    case 1
    then show ?thesis
      by (simp add: main_def parseProgramFlags_def snd_io_bind)
  next
    case 2
    then have p: "snd (flag_Parse env args initialFlags) = Return flags" by simp
    show ?thesis
    proof (cases "snd (checkParsedMACAddress flags)")
      case (Return u)
      show ?thesis
      proof (cases "listNetworkAdapters flags")
        case True
        then show ?thesis
          using Return by (simp add: main_status [OF p] listNetworkAdapters_run_no_panic)
      next
        case False
        from checkParsedMACAddress_Return [OF Return False]
        obtain m where "macAddress flags = Some m" "length m = 6" by blast
        then show ?thesis
          using Return False by (simp add: main_status [OF p] wakeRemoteComputer_no_panic)
      qed
    next
      case (Exit c)
      then show ?thesis by (simp add: main_status [OF p])
    next
      case Panic
      then show ?thesis using checkParsedMACAddress_no_panic by blast
    qed
  qed
qed

lemma main_wrong_length:
  assumes "snd (flag_Parse env args initialFlags) = Return flags"
    and "\<not> listNetworkAdapters flags" and "macAddress flags = Some m" and "length m \<noteq> 6"
  shows "main env args =
    ([Fprintln_Stderr ''MAC address must be an EUI-48 identifier.''], Exit macAddressNotEUI48Error)"
  using assms(2-) flag_Parse_Return [OF assms(1)]
  by (simp add: main_def parseProgramFlags_def io_bind_Return io_bind_Exit
      checkParsedMACAddress_def eui48Length_def)

text \<open>
  C7. In the send path a hardware address whose length is not 6 bytes ends the process
  (one line on the error stream, exit code 3) with no socket opened and no payload built;
  whenever flag processing lets the send path go on, the address has exactly 6 bytes and
  the payload builder returns the magic packet; and no run of the program panics, so no
  index of the builder is ever out of range.
\<close>

theorem wrong_length_rejected_before_builder:
  "(\<forall>flags m. snd (flag_Parse env args initialFlags) = Return flags \<and>
      \<not> listNetworkAdapters flags \<and> macAddress flags = Some m \<and> length m \<noteq> 6 \<longrightarrow>
      main env args =
        ([Fprintln_Stderr ''MAC address must be an EUI-48 identifier.''],
         Exit macAddressNotEUI48Error)) \<and>
   (\<forall>flags. snd (parseProgramFlags env args) = Return flags \<and> \<not> listNetworkAdapters flags \<longrightarrow>
      (\<exists>m. macAddress flags = Some m \<and> length m = 6 \<and>
           createWOLPayload flags = Return (magic_packet m))) \<and>
   snd (main env args) \<noteq> Panic"
proof (intro conjI allI impI)
  fix flags m
  assume "snd (flag_Parse env args initialFlags) = Return flags \<and>
      \<not> listNetworkAdapters flags \<and> macAddress flags = Some m \<and> length m \<noteq> 6"
  then show "main env args =
        ([Fprintln_Stderr ''MAC address must be an EUI-48 identifier.''],
         Exit macAddressNotEUI48Error)"
    using main_wrong_length by blast
next
  fix flags
  assume a: "snd (parseProgramFlags env args) = Return flags \<and> \<not> listNetworkAdapters flags"
  then have "snd (checkParsedMACAddress flags) = Return ()"
    using parseProgramFlags_Return by blast
  with a obtain m where m: "macAddress flags = Some m" "length m = 6"
    using checkParsedMACAddress_Return by blast
  then have "createWOLPayload flags = Return (magic_packet m)"
    by (rule createWOLPayload_magic)
  with m show "\<exists>m. macAddress flags = Some m \<and> length m = 6 \<and>
           createWOLPayload flags = Return (magic_packet m)"
    by blast
next
  show "snd (main env args) \<noteq> Panic"
    by (rule main_no_panic)
qed

theorem wrong_length_rejected_before_builder_witness:
  "main env_example args_eui64 =
     ([Fprintln_Stderr ''MAC address must be an EUI-48 identifier.''], Exit 3) \<and>
   (\<exists>m. macAddress flags_example = Some m \<and> length m = 6 \<and>
        createWOLPayload flags_example = Return (magic_packet m))"
proof -
  have p1: "snd (flag_Parse env_example args_eui64 initialFlags) =
      Return \<lparr>listNetworkAdapters = False,
              macAddress = Some [0x01, 0x23, 0x45, 0x67, 0x89, 0xab, 0xcd, 0xef],
              networkAdapterName = ''eth0''\<rparr>"
    by (simp add: example_defs eval_defs)
  have r1: "main env_example args_eui64 =
     ([Fprintln_Stderr ''MAC address must be an EUI-48 identifier.''], Exit 3)"
    using wrong_length_rejected_before_builder [where env = env_example and args = args_eui64] p1
    by (simp add: macAddressNotEUI48Error_def)
  have p2: "snd (parseProgramFlags env_example args_example) = Return flags_example"
    by (simp add: example_defs eval_defs parseProgramFlags_def io_bind_def
        checkParsedMACAddress_def eui48Length_def flags_example_def)
  have l: "\<not> listNetworkAdapters flags_example"
    by (simp add: flags_example_def)
  have r2: "\<exists>m. macAddress flags_example = Some m \<and> length m = 6 \<and>
        createWOLPayload flags_example = Return (magic_packet m)"
    using wrong_length_rejected_before_builder [where env = env_example and args = args_example]
      p2 l by blast
  show ?thesis
    using r1 r2 by (intro conjI)
qed

subsection \<open>The destination\<close>

lemma flag_Parse_net_free: "list_all net_free (fst (flag_Parse env args flags))"
  using flag_Parse_result [of env args flags] by auto

lemma checkParsedMACAddress_net_free: "list_all net_free (fst (checkParsedMACAddress flags))"
  by (simp add: checkParsedMACAddress_def split: option.splits)

lemma io_bind_list_all:
  assumes "list_all P (fst m)" and "\<And>a. snd m = Return a \<Longrightarrow> list_all P (fst (f a))"
  shows "list_all P (fst (io_bind m f))"
  using assms by (cases "snd m") (simp_all add: fst_io_bind)

lemma parseProgramFlags_net_free: "list_all net_free (fst (parseProgramFlags env args))"
  unfolding parseProgramFlags_def
  by (intro io_bind_list_all flag_Parse_net_free checkParsedMACAddress_net_free) simp

lemma listing_of_net_free: "list_all net_free (listing_of ifs)"
  by (induction ifs) (simp_all add: listing_of_def map_filter_simps adapter_line_def split: option.splits)

lemma listNetworkAdapters_loop_net_free: "list_all net_free (fst (listNetworkAdapters_loop ifs))"
proof (induction ifs)
  case Nil
  show ?case by simp
next
  case (Cons a ifs)
  show ?case
  proof (cases "Addrs a")
    case (Inl e)
    then show ?thesis
      by (simp add: addressFromNetworkAdapter_failed io_bind_Exit)
  next
    case (Inr addrs)
    then show ?thesis
      using Cons listing_of_net_free [of "[a]"]
      unfolding listNetworkAdapters_loop_Cons_ok [OF Inr] by simp
  qed
qed

lemma listNetworkAdapters_run_net_free: "list_all net_free (fst (listNetworkAdapters_run env))"
  by (simp add: listNetworkAdapters_run_def listNetworkAdapters_loop_net_free split: sum.splits)

text \<open>The network events of the send path.\<close>

lemma openUDPConnection_dial:
  assumes "NetDialUDP network laddr raddr \<in> set (fst (openUDPConnection env flags))"
  shows "network = ''udp4'' \<and> raddr = remoteAddress"
  using assms
  by (auto simp: openUDPConnection_def addressFromNetworkAdapterName_cases fst_io_bind
      split: sum.splits)

lemma openUDPConnection_no_write:
  "ConnWrite conn p \<notin> set (fst (openUDPConnection env flags))"
  by (auto simp: openUDPConnection_def addressFromNetworkAdapterName_cases fst_io_bind
      split: sum.splits)

lemma openUDPConnection_Return:
  assumes "snd (openUDPConnection env flags) = Return conn"
  shows "\<exists>laddr. DialUDP env laddr remoteAddress = Inr conn"
  using assms
  by (auto simp: openUDPConnection_status split: sum.splits)

lemma sendWOLPayload_dial:
  "NetDialUDP network laddr raddr \<notin> set (fst (sendWOLPayload env conn payload))"
  by (auto simp: sendWOLPayload_def fst_io_bind split: prod.splits option.splits)

lemma sendWOLPayload_write:
  assumes "ConnWrite c p \<in> set (fst (sendWOLPayload env conn payload))"
  shows "c = conn \<and> p = payload"
  using assms
  by (auto simp: sendWOLPayload_def fst_io_bind split: prod.splits option.splits if_splits)

lemma wakeRemoteComputer_trace:
  "set (fst (wakeRemoteComputer env flags)) \<subseteq>
     set (fst (openUDPConnection env flags)) \<union>
     (case snd (openUDPConnection env flags) of
        Return conn \<Rightarrow>
          (case createWOLPayload flags of
             Return payload \<Rightarrow> set (fst (sendWOLPayload env conn payload)) \<union> {ConnClose conn}
           | Exit c \<Rightarrow> {}
           | Panic \<Rightarrow> {})
      | Exit c \<Rightarrow> {}
      | Panic \<Rightarrow> {})"
  by (auto simp: wakeRemoteComputer_def fst_io_bind snd_io_bind closeUDPConnection_def
      split: result.splits)

lemma wakeRemoteComputer_dial:
  assumes "NetDialUDP network laddr raddr \<in> set (fst (wakeRemoteComputer env flags))"
  shows "network = ''udp4'' \<and> raddr = remoteAddress"
proof -
  have "NetDialUDP network laddr raddr \<in> set (fst (openUDPConnection env flags))"
    using assms wakeRemoteComputer_trace [of env flags] sendWOLPayload_dial
    by (auto split: result.splits)
  then show ?thesis by (rule openUDPConnection_dial)
qed

lemma wakeRemoteComputer_write:
  assumes "ConnWrite conn p \<in> set (fst (wakeRemoteComputer env flags))"
  shows "\<exists>laddr. DialUDP env laddr remoteAddress = Inr conn"
proof -
  from assms wakeRemoteComputer_trace [of env flags] openUDPConnection_no_write
  obtain c payload where "snd (openUDPConnection env flags) = Return c"
    and "ConnWrite conn p \<in> set (fst (sendWOLPayload env c payload))"
    by (auto split: result.splits)
  then show ?thesis
    using openUDPConnection_Return sendWOLPayload_write by blast
qed

lemma main_trace:
  "set (fst (main env args)) \<subseteq>
     {e. net_free e} \<union> (\<Union>flags. set (fst (wakeRemoteComputer env flags)))"
proof -
  have a: "set (fst (parseProgramFlags env args)) \<subseteq> {e. net_free e}"
    using parseProgramFlags_net_free [of env args] by (auto simp: list_all_iff)
  have b: "set (fst (listNetworkAdapters_run env)) \<subseteq> {e. net_free e}"
    using listNetworkAdapters_run_net_free [of env] by (auto simp: list_all_iff)
  show ?thesis
    using a b by (auto simp: main_def fst_io_bind split: result.splits if_splits)
qed

text \<open>
  C8. In every run, whatever the flags, the adapters and the address, each call of
  \<^verbatim>\<open>net.DialUDP\<close> asks for the network \<^verbatim>\<open>udp4\<close> and the remote
  endpoint 255.255.255.255 on port 7, and every write goes to a connection that such a
  call has returned.
\<close>

theorem destination_is_broadcast_port_7:
  "(\<forall>network laddr raddr.
      NetDialUDP network laddr raddr \<in> set (fst (main env args)) \<longrightarrow>
      network = ''udp4'' \<and> raddr = \<lparr>IP = [255, 255, 255, 255], Port = 7\<rparr>) \<and>
   (\<forall>conn p.
      ConnWrite conn p \<in> set (fst (main env args)) \<longrightarrow>
      (\<exists>laddr. DialUDP env laddr \<lparr>IP = [255, 255, 255, 255], Port = 7\<rparr> = Inr conn))"
proof -
  have dial: "network = ''udp4'' \<and> raddr = \<lparr>IP = [255, 255, 255, 255], Port = 7\<rparr>"
    if "NetDialUDP network laddr raddr \<in> set (fst (main env args))" for network laddr raddr
  proof -
    from that obtain flags where
      "NetDialUDP network laddr raddr \<in> set (fst (wakeRemoteComputer env flags))"
      using main_trace [of env args] by auto
    then show ?thesis
      using wakeRemoteComputer_dial
      by (simp add: remoteAddress_def wakeOnLanUDPPort_def)
  qed
  have "write": "\<exists>laddr. DialUDP env laddr \<lparr>IP = [255, 255, 255, 255], Port = 7\<rparr> = Inr conn"
    if "ConnWrite conn p \<in> set (fst (main env args))" for conn p
  proof -
    from that obtain flags where
      "ConnWrite conn p \<in> set (fst (wakeRemoteComputer env flags))"
      using main_trace [of env args] by auto
    then show ?thesis
      using wakeRemoteComputer_write
      by (simp add: remoteAddress_def wakeOnLanUDPPort_def)
  qed
  show ?thesis
    using dial "write" by blast
qed


lemma createWOLPayload_example:
  "createWOLPayload
     \<lparr>listNetworkAdapters = False,
      macAddress = Some [0xAA, 0xBB, 0xCC, 0xDD, 0xEE, 0xFF],
      networkAdapterName = name\<rparr> = Return (magic_packet mac_example)"
  by (simp add: createWOLPayload_magic [where m = mac_example] mac_example_def)

lemma length_magic_packet_example: "length (magic_packet mac_example) = 102"
  by (simp add: magic_packet_def mac_example_def length_concat_replicate)

lemma main_example:
  "main env_example args_example =
     ([NetDialUDP ''udp4'' (Some \<lparr>IP = [192, 168, 1, 10], Port = 7\<rparr>) remoteAddress,
       Printf
         ''Sending Wake-on-LAN payload to the remote address %s from the local address %s.\<newline>''
         [ArgUDPAddr (Some remoteAddress), ArgUDPAddr (Some \<lparr>IP = [192, 168, 1, 10], Port = 7\<rparr>)],
       ConnWrite conn_example (magic_packet mac_example),
       Printf ''Wake-on-LAN payload sent.'' [],
       ConnClose conn_example],
      Return ())"
  by (simp add: main_def parseProgramFlags_def checkParsedMACAddress_def eui48Length_def
      wakeRemoteComputer_def openUDPConnection_def addressFromNetworkAdapterName_def
      addressFromNetworkAdapter_def sendWOLPayload_def closeUDPConnection_def io_bind_def
      createWOLPayload_example length_magic_packet_example payloadLength_102
      conn_example_def example_defs parseMACAddressFlag_def initialFlags_def
      InterfaceByName_def To4_def IsLoopback_def remoteAddress_def wakeOnLanUDPPort_def)

theorem destination_is_broadcast_port_7_witness:
  "NetDialUDP ''udp4'' (Some \<lparr>IP = [192, 168, 1, 10], Port = 7\<rparr>) remoteAddress
     \<in> set (fst (main env_example args_example)) \<and>
   remoteAddress = \<lparr>IP = [255, 255, 255, 255], Port = 7\<rparr> \<and>
   ConnWrite conn_example (magic_packet mac_example) \<in> set (fst (main env_example args_example)) \<and>
   (\<exists>laddr. DialUDP env_example laddr \<lparr>IP = [255, 255, 255, 255], Port = 7\<rparr> = Inr conn_example)"
proof -
  have d: "NetDialUDP ''udp4'' (Some \<lparr>IP = [192, 168, 1, 10], Port = 7\<rparr>) remoteAddress
     \<in> set (fst (main env_example args_example))"
    by (simp add: main_example)
  have w: "ConnWrite conn_example (magic_packet mac_example)
     \<in> set (fst (main env_example args_example))"
    by (simp add: main_example)
  show ?thesis
    using d w destination_is_broadcast_port_7 [of env_example args_example] by blast
qed

subsection \<open>The adapter listing\<close>

lemma parseProgramFlags_Return_eq:
  assumes "snd (parseProgramFlags env args) = Return flags"
  shows "parseProgramFlags env args = ([], Return flags)"
proof -
  from parseProgramFlags_Return [OF assms]
  have p: "snd (flag_Parse env args initialFlags) = Return flags"
    and c: "snd (checkParsedMACAddress flags) = Return ()"
    by simp_all
  have "checkParsedMACAddress flags = ([], Return ())"
    using c by (auto simp: checkParsedMACAddress_def split: option.splits if_splits)
  then show ?thesis
    using flag_Parse_Return [OF p]
    by (simp add: parseProgramFlags_def io_bind_Return)
qed

lemma main_after_flags:
  assumes "snd (parseProgramFlags env args) = Return flags"
  shows "main env args =
     (if listNetworkAdapters flags then listNetworkAdapters_run env
      else wakeRemoteComputer env flags)"
  using parseProgramFlags_Return_eq [OF assms]
  by (simp add: main_def io_bind_Return)

text \<open>
  C9. In adapter-listing mode the adapters are processed in the order of the interface
  table, and the first adapter whose addresses cannot be fetched ends the whole listing:
  after the lines of the adapters before it, the error is reported and the process exits
  with the address-enumeration code (5); the adapters after it are not processed.
\<close>

theorem listing_stops_at_failed_adapter:
  assumes "interfaceTable env = Inr (pre @ bad # post)"
    and "\<forall>a\<in>set pre. \<exists>addrs. Addrs a = Inr addrs"
    and "Addrs bad = Inl e"
  shows "listNetworkAdapters_run env =
     (listing_of pre @
      [Fprintf_Stderr
         ''The following error occurred when fetching the addresses of the network adapter of index %d: %s\<newline>''
         [ArgInt (Index bad), ArgStr e]],
      Exit networkAdapterAddressesFetchingError) \<and>
   networkAdapterAddressesFetchingError = 5 \<and>
   (\<forall>args flags. snd (parseProgramFlags env args) = Return flags \<and> listNetworkAdapters flags \<longrightarrow>
      main env args = listNetworkAdapters_run env \<and> exit_code env args = 5)"
proof -
  have run: "listNetworkAdapters_run env =
     (listing_of pre @
      [Fprintf_Stderr
         ''The following error occurred when fetching the addresses of the network adapter of index %d: %s\<newline>''
         [ArgInt (Index bad), ArgStr e]],
      Exit networkAdapterAddressesFetchingError)"
    using assms(1) listNetworkAdapters_loop_failed [OF assms(2,3), of post]
    by (simp add: listNetworkAdapters_run_def Interfaces_def)
  have code: "networkAdapterAddressesFetchingError = 5"
    by (simp add: networkAdapterAddressesFetchingError_def)
  have "main env args = listNetworkAdapters_run env \<and> exit_code env args = 5"
    if "snd (parseProgramFlags env args) = Return flags" "listNetworkAdapters flags"
    for args flags
    using that run code by (simp add: main_after_flags exit_code_def)
  then show ?thesis
    using run code by blast
qed

theorem listing_stops_at_failed_adapter_witness:
  "interfaceTable env_broken = Inr ([adapter_eth0] @ adapter_broken # [adapter_lo]) \<and>
   Addrs adapter_eth0 = Inr [loopback_v4, real_v4, link_local_v6] \<and>
   Addrs adapter_broken = Inl ''permission denied'' \<and>
   main env_broken args_list =
     ([Printf ''Local Address: %-15s | Name: %s\<newline>'' [ArgIP [192, 168, 1, 10], ArgStr ''eth0''],
       Fprintf_Stderr
         ''The following error occurred when fetching the addresses of the network adapter of index %d: %s\<newline>''
         [ArgInt 3, ArgStr ''permission denied'']],
      Exit 5)"
proof -
  have t: "interfaceTable env_broken = Inr ([adapter_eth0] @ adapter_broken # [adapter_lo])"
    by (simp add: env_broken_def env_example_def)
  have p: "\<forall>a\<in>set [adapter_eth0]. \<exists>addrs. Addrs a = Inr addrs"
    by (simp add: adapter_eth0_def)
  have a: "Addrs adapter_eth0 = Inr [loopback_v4, real_v4, link_local_v6]"
    by (simp add: adapter_eth0_def)
  have b: "Addrs adapter_broken = Inl ''permission denied''"
    by (simp add: adapter_broken_def)
  have f: "snd (parseProgramFlags env_broken args_list) =
      Return \<lparr>listNetworkAdapters = True, macAddress = None, networkAdapterName = []\<rparr>"
    by (simp add: parseProgramFlags_def args_list_def initialFlags_def io_bind_def
        checkParsedMACAddress_def)
  have l: "listing_of [adapter_eth0] =
     [Printf ''Local Address: %-15s | Name: %s\<newline>'' [ArgIP [192, 168, 1, 10], ArgStr ''eth0'']]"
    by (simp add: listing_of_def map_filter_simps resolved_def adapter_line_def
        adapter_eth0_def loopback_v4_def real_v4_def link_local_v6_def To4_def IsLoopback_def
        wakeOnLanUDPPort_def)
  have i: "Index adapter_broken = 3"
    by (simp add: adapter_broken_def)
  from listing_stops_at_failed_adapter [OF t p b] f
  have "main env_broken args_list =
     (listing_of [adapter_eth0] @
      [Fprintf_Stderr
         ''The following error occurred when fetching the addresses of the network adapter of index %d: %s\<newline>''
         [ArgInt (Index adapter_broken), ArgStr ''permission denied'']],
      Exit 5)"
    by simp
  then show ?thesis
    using t a b by (simp add: l i)
qed

text \<open>
  C10. In adapter-listing mode, when the addresses of every adapter can be fetched, the
  output has, in the order of the adapters, one line for each adapter for which the
  resolver returns an address and nothing for the others, and the program exits with
  status 0.
\<close>

theorem listing_omits_adapters_without_address:
  assumes "interfaceTable env = Inr ifs"
    and "\<forall>a\<in>set ifs. \<exists>addrs. Addrs a = Inr addrs"
  shows "listNetworkAdapters_run env =
     (List.map_filter (\<lambda>a. map_option (adapter_line a) (resolved a)) ifs, Return ()) \<and>
   length (fst (listNetworkAdapters_run env)) = length (filter (\<lambda>a. resolved a \<noteq> None) ifs) \<and>
   (\<forall>a\<in>set ifs. addressFromNetworkAdapter a = ([], Return (resolved a))) \<and>
   (\<forall>args flags. snd (parseProgramFlags env args) = Return flags \<and> listNetworkAdapters flags \<longrightarrow>
      main env args = listNetworkAdapters_run env \<and> exit_code env args = 0)"
proof -
  have run: "listNetworkAdapters_run env = (listing_of ifs, Return ())"
    using assms(1) listNetworkAdapters_loop_ok [OF assms(2)]
    by (simp add: listNetworkAdapters_run_def Interfaces_def)
  have len: "length (listing_of ifs) = length (filter (\<lambda>a. resolved a \<noteq> None) ifs)"
    by (induction ifs) (simp_all add: listing_of_def map_filter_simps split: option.splits)
  have res: "\<forall>a\<in>set ifs. addressFromNetworkAdapter a = ([], Return (resolved a))"
    using assms(2) addressFromNetworkAdapter_ok by blast
  have "main env args = listNetworkAdapters_run env \<and> exit_code env args = 0"
    if "snd (parseProgramFlags env args) = Return flags" "listNetworkAdapters flags"
    for args flags
    using that run by (simp add: main_after_flags exit_code_def)
  then show ?thesis
    using run len res unfolding listing_of_def by auto
qed

theorem listing_omits_adapters_without_address_witness:
  "interfaceTable env_example = Inr [adapter_lo, adapter_eth0] \<and>
   addressFromNetworkAdapter adapter_lo = ([], Return None) \<and>
   addressFromNetworkAdapter adapter_eth0 =
     ([], Return (Some \<lparr>IP = [192, 168, 1, 10], Port = 7\<rparr>)) \<and>
   main env_example args_list =
     ([Printf ''Local Address: %-15s | Name: %s\<newline>'' [ArgIP [192, 168, 1, 10], ArgStr ''eth0'']],
      Return ()) \<and>
   exit_code env_example args_list = 0"
proof -
  have t: "interfaceTable env_example = Inr [adapter_lo, adapter_eth0]"
    by (simp add: env_example_def)
  have p: "\<forall>a\<in>set [adapter_lo, adapter_eth0]. \<exists>addrs. Addrs a = Inr addrs"
    by (simp add: adapter_eth0_def adapter_lo_def)
  have f: "snd (parseProgramFlags env_example args_list) =
      Return \<lparr>listNetworkAdapters = True, macAddress = None, networkAdapterName = []\<rparr>"
    by (simp add: parseProgramFlags_def args_list_def initialFlags_def io_bind_def
        checkParsedMACAddress_def)
  have r1: "resolved adapter_lo = None"
    by (simp add: resolved_def adapter_lo_def loopback_v4_def To4_def IsLoopback_def)
  have r2: "resolved adapter_eth0 = Some \<lparr>IP = [192, 168, 1, 10], Port = 7\<rparr>"
    by (simp add: resolved_def adapter_eth0_def loopback_v4_def real_v4_def link_local_v6_def
        To4_def IsLoopback_def wakeOnLanUDPPort_def)
  have n: "Name adapter_eth0 = ''eth0''"
    by (simp add: adapter_eth0_def)
  note inst = listing_omits_adapters_without_address [OF t p]
  have a1: "addressFromNetworkAdapter adapter_lo = ([], Return None)"
    using inst r1 by simp
  have a2: "addressFromNetworkAdapter adapter_eth0 =
     ([], Return (Some \<lparr>IP = [192, 168, 1, 10], Port = 7\<rparr>))"
    using inst r2 by simp
  have m: "main env_example args_list = listNetworkAdapters_run env_example"
    and c: "exit_code env_example args_list = 0"
    using inst f by simp_all
  have "listNetworkAdapters_run env_example =
     ([Printf ''Local Address: %-15s | Name: %s\<newline>'' [ArgIP [192, 168, 1, 10], ArgStr ''eth0'']],
      Return ())"
    using inst by (simp add: map_filter_simps r1 r2 adapter_line_def n)
  then show ?thesis
    using t a1 a2 m c by simp
qed

subsection \<open>The local address of the socket\<close>

lemma loop_no_qualifying:
  "\<forall>a\<in>set addrs. \<not> qualifying a \<Longrightarrow> addressFromNetworkAdapter_loop addrs = None"
  by (simp add: loop_None_iff)

text \<open>
  C2, as the program has it. When the resolver finds no qualifying address on the
  selected adapter, the send step does not stop: \<^verbatim>\<open>net.DialUDP\<close> is called with
  a nil local address and the fixed remote endpoint, and the run goes on with the
  connection it returns; only a socket that does not open is fatal there.
\<close>

theorem no_qualifying_address_dials_with_nil:
  assumes "InterfaceByName env (networkAdapterName flags) = Inr networkAdapter"
    and "Addrs networkAdapter = Inr addrs"
    and "\<forall>a\<in>set addrs. \<not> qualifying a"
  shows "openUDPConnection env flags =
     (case DialUDP env None remoteAddress of
        Inl err \<Rightarrow>
          ([NetDialUDP ''udp4'' None remoteAddress,
            Fprintf_Stderr
              ''The following error occurred when trying to connect to the remote address %s from the local address %s: %s\<newline>''
              [ArgUDPAddr (Some remoteAddress), ArgUDPAddr None, ArgStr err]],
           Exit udpConnectionError)
      | Inr udpConnection \<Rightarrow> ([NetDialUDP ''udp4'' None remoteAddress], Return udpConnection))"
  using assms(1,2) loop_no_qualifying [OF assms(3)]
  by (simp add: openUDPConnection_def addressFromNetworkAdapterName_cases io_bind_Return
      split: sum.splits)

theorem no_qualifying_address_dials_with_nil_witness:
  "InterfaceByName env_example (networkAdapterName flags_lo) = Inr adapter_lo \<and>
   Addrs adapter_lo = Inr [loopback_v4] \<and>
   \<not> qualifying loopback_v4 \<and>
   openUDPConnection env_example flags_lo =
     ([NetDialUDP ''udp4'' None remoteAddress], Return conn_default)"
proof -
  have i: "InterfaceByName env_example (networkAdapterName flags_lo) = Inr adapter_lo"
    by (simp add: InterfaceByName_def env_example_def flags_lo_def adapter_lo_def
        adapter_eth0_def)
  have a: "Addrs adapter_lo = Inr [loopback_v4]"
    by (simp add: adapter_lo_def)
  have q: "\<not> qualifying loopback_v4"
    by (simp add: qualifying_def ipv4_of_def loopback_v4_def To4_def)
  then have q': "\<forall>a\<in>set [loopback_v4]. \<not> qualifying a"
    by simp
  have d: "DialUDP env_example None remoteAddress = Inr conn_default"
    by (simp add: env_example_def conn_default_def remoteAddress_def wakeOnLanUDPPort_def)
  show ?thesis
    using i a q no_qualifying_address_dials_with_nil [OF i a q'] d by simp
qed

text \<open>
  A run that does so: on the adapter \<open>lo\<close> of the example system, which has the
  loopback address only, the resolver finds nothing, and the program opens the socket
  with a nil local address, sends the payload and returns, with exit status 0.
\<close>

theorem no_qualifying_address_counterexample:
  "addressFromNetworkAdapterName env_example ''lo'' = ([], Return None) \<and>
   main env_example args_lo =
     ([NetDialUDP ''udp4'' None \<lparr>IP = [255, 255, 255, 255], Port = 7\<rparr>,
       Printf
         ''Sending Wake-on-LAN payload to the remote address %s from the local address %s.\<newline>''
         [ArgUDPAddr (Some \<lparr>IP = [255, 255, 255, 255], Port = 7\<rparr>),
          ArgUDPAddr (Some \<lparr>IP = [192, 168, 1, 10], Port = 40000\<rparr>)],
       ConnWrite conn_default (magic_packet mac_example),
       Printf ''Wake-on-LAN payload sent.'' [],
       ConnClose conn_default],
      Return ()) \<and>
   exit_code env_example args_lo = 0"
proof -
  have r: "addressFromNetworkAdapterName env_example ''lo'' = ([], Return None)"
    by (simp add: addressFromNetworkAdapterName_def addressFromNetworkAdapter_def
        InterfaceByName_def To4_def IsLoopback_def example_defs)
  have m: "main env_example args_lo =
     ([NetDialUDP ''udp4'' None \<lparr>IP = [255, 255, 255, 255], Port = 7\<rparr>,
       Printf
         ''Sending Wake-on-LAN payload to the remote address %s from the local address %s.\<newline>''
         [ArgUDPAddr (Some \<lparr>IP = [255, 255, 255, 255], Port = 7\<rparr>),
          ArgUDPAddr (Some \<lparr>IP = [192, 168, 1, 10], Port = 40000\<rparr>)],
       ConnWrite conn_default (magic_packet mac_example),
       Printf ''Wake-on-LAN payload sent.'' [],
       ConnClose conn_default],
      Return ())"
    by (simp add: main_def parseProgramFlags_def checkParsedMACAddress_def eui48Length_def
        wakeRemoteComputer_def openUDPConnection_def addressFromNetworkAdapterName_def
        addressFromNetworkAdapter_def sendWOLPayload_def closeUDPConnection_def io_bind_def
        createWOLPayload_example length_magic_packet_example payloadLength_102
        conn_default_def example_defs parseMACAddressFlag_def initialFlags_def
        InterfaceByName_def To4_def IsLoopback_def remoteAddress_def wakeOnLanUDPPort_def)
  show ?thesis
    using r m by (simp add: exit_code_def)
qed

text \<open>
  C3, as the program has it. When the adapter name is unset (empty), the send path does
  not skip the resolver: it looks the empty name up, \<^verbatim>\<open>net.InterfaceByName\<close>
  refuses it, and the process ends with the adapter-lookup code (6) before any socket is
  opened.
\<close>

theorem unset_adapter_name_is_fatal:
  assumes "networkAdapterName flags = []"
  shows "wakeRemoteComputer env flags =
     ([Fprintf_Stderr
         ''The following error occurred when fetching the network adapter named %s: %s\<newline>''
         [ArgStr [], ArgStr ''route ip+net: invalid network interface name'']],
      Exit networkAdapterFetchingError) \<and>
   networkAdapterFetchingError = 6 \<and>
   (\<forall>args. snd (parseProgramFlags env args) = Return flags \<and> \<not> listNetworkAdapters flags \<longrightarrow>
      main env args = wakeRemoteComputer env flags \<and> exit_code env args = 6)"
proof -
  have run: "wakeRemoteComputer env flags =
     ([Fprintf_Stderr
         ''The following error occurred when fetching the network adapter named %s: %s\<newline>''
         [ArgStr [], ArgStr ''route ip+net: invalid network interface name'']],
      Exit networkAdapterFetchingError)"
    using assms
    by (simp add: wakeRemoteComputer_def openUDPConnection_def
        addressFromNetworkAdapterName_def InterfaceByName_def opError_def io_bind_Exit)
  have code: "networkAdapterFetchingError = 6"
    by (simp add: networkAdapterFetchingError_def)
  have "main env args = wakeRemoteComputer env flags \<and> exit_code env args = 6"
    if "snd (parseProgramFlags env args) = Return flags" "\<not> listNetworkAdapters flags"
    for args
    using that run code by (simp add: main_after_flags exit_code_def)
  then show ?thesis
    using run code by blast
qed

theorem unset_adapter_name_is_fatal_witness:
  "networkAdapterName flags_no_adapter = [] \<and>
   snd (parseProgramFlags env_example args_no_adapter) = Return flags_no_adapter \<and>
   main env_example args_no_adapter =
     ([Fprintf_Stderr
         ''The following error occurred when fetching the network adapter named %s: %s\<newline>''
         [ArgStr [], ArgStr ''route ip+net: invalid network interface name'']],
      Exit 6)"
proof -
  have n: "networkAdapterName flags_no_adapter = []"
    by (simp add: flags_no_adapter_def)
  have l: "\<not> listNetworkAdapters flags_no_adapter"
    by (simp add: flags_no_adapter_def)
  have p: "snd (parseProgramFlags env_example args_no_adapter) = Return flags_no_adapter"
    by (simp add: parseProgramFlags_def io_bind_def checkParsedMACAddress_def eui48Length_def
        parseMACAddressFlag_def initialFlags_def flags_no_adapter_def args_no_adapter_def
        env_example_def)
  show ?thesis
    using n p l unset_adapter_name_is_fatal [OF n, of env_example] by simp
qed

text \<open>
  A run that does so: with a valid address and no adapter name, the program ends on the
  example system with the adapter-lookup error and exit code 6.
\<close>

theorem unset_adapter_name_counterexample:
  "flag_Parse env_example args_no_adapter initialFlags = ([], Return flags_no_adapter) \<and>
   networkAdapterName flags_no_adapter = [] \<and>
   main env_example args_no_adapter =
     ([Fprintf_Stderr
         ''The following error occurred when fetching the network adapter named %s: %s\<newline>''
         [ArgStr [], ArgStr ''route ip+net: invalid network interface name'']],
      Exit networkAdapterFetchingError) \<and>
   exit_code env_example args_no_adapter = 6"
  by (simp add: exit_code_def main_def parseProgramFlags_def checkParsedMACAddress_def
      eui48Length_def wakeRemoteComputer_def openUDPConnection_def
      addressFromNetworkAdapterName_def io_bind_def parseMACAddressFlag_def initialFlags_def
      InterfaceByName_def opError_def flags_no_adapter_def args_no_adapter_def
      env_example_def networkAdapterFetchingError_def)

end
